theory Spec2Isabelle
  imports Complex_Main
begin

unbundle bit_operations_syntax

section \<open>Numbers, tensors and errors\<close>

text \<open>
  A tensor element is a floating-point number with rounding, overflow and the sign of
  zero left out: a real number, or one of the three special values that the arithmetic
  of the source produces from real operands (\<open>1/0\<close>, \<open>0/0\<close>, the square root of a
  negative number). The special values follow IEEE 754 as PyTorch applies it.
\<close>

datatype fl = is_Fin: Fin (real_of: real) | PInf | NInf | NaN

definition inf_of :: "real \<Rightarrow> fl" where
  "inf_of s = (if 0 < s then PInf else if s < 0 then NInf else NaN)"

fun fl_neg :: "fl \<Rightarrow> fl" where
  "fl_neg (Fin a) = Fin (- a)"
| "fl_neg PInf = NInf"
| "fl_neg NInf = PInf"
| "fl_neg NaN = NaN"

fun fl_add :: "fl \<Rightarrow> fl \<Rightarrow> fl" where
  "fl_add (Fin a) (Fin b) = Fin (a + b)"
| "fl_add NaN b = NaN"
| "fl_add a NaN = NaN"
| "fl_add PInf NInf = NaN"
| "fl_add NInf PInf = NaN"
| "fl_add PInf b = PInf"
| "fl_add a PInf = PInf"
| "fl_add NInf b = NInf"
| "fl_add a NInf = NInf"

definition fl_sub :: "fl \<Rightarrow> fl \<Rightarrow> fl" where
  "fl_sub a b = fl_add a (fl_neg b)"

fun fl_mul :: "fl \<Rightarrow> fl \<Rightarrow> fl" where
  "fl_mul (Fin a) (Fin b) = Fin (a * b)"
| "fl_mul NaN b = NaN"
| "fl_mul a NaN = NaN"
| "fl_mul PInf (Fin b) = inf_of b"
| "fl_mul (Fin a) PInf = inf_of a"
| "fl_mul NInf (Fin b) = inf_of (- b)"
| "fl_mul (Fin a) NInf = inf_of (- a)"
| "fl_mul PInf PInf = PInf"
| "fl_mul NInf NInf = PInf"
| "fl_mul PInf NInf = NInf"
| "fl_mul NInf PInf = NInf"

fun fl_div :: "fl \<Rightarrow> fl \<Rightarrow> fl" where
  "fl_div (Fin a) (Fin b) = (if b = 0 then inf_of a else Fin (a / b))"
| "fl_div NaN b = NaN"
| "fl_div a NaN = NaN"
| "fl_div (Fin a) PInf = Fin 0"
| "fl_div (Fin a) NInf = Fin 0"
| "fl_div PInf (Fin b) = (if 0 \<le> b then PInf else NInf)"
| "fl_div NInf (Fin b) = (if 0 \<le> b then NInf else PInf)"
| "fl_div a b = NaN"

fun fl_sqrt :: "fl \<Rightarrow> fl" where
  "fl_sqrt (Fin a) = (if a < 0 then NaN else Fin (sqrt a))"
| "fl_sqrt PInf = PInf"
| "fl_sqrt NInf = NaN"
| "fl_sqrt NaN = NaN"

fun fl_tanh :: "fl \<Rightarrow> fl" where
  "fl_tanh (Fin a) = Fin (tanh a)"
| "fl_tanh PInf = Fin 1"
| "fl_tanh NInf = Fin (- 1)"
| "fl_tanh NaN = NaN"

fun fl_sigmoid :: "fl \<Rightarrow> fl" where
  "fl_sigmoid (Fin a) = Fin (1 / (1 + exp (- a)))"
| "fl_sigmoid PInf = Fin 1"
| "fl_sigmoid NInf = Fin 0"
| "fl_sigmoid NaN = NaN"

text \<open>The comparison \<open>a < b\<close>: false as soon as one side is NaN.\<close>

fun fl_less :: "fl \<Rightarrow> fl \<Rightarrow> bool" where
  "fl_less (Fin a) (Fin b) = (a < b)"
| "fl_less NaN b = False"
| "fl_less a NaN = False"
| "fl_less a NInf = False"
| "fl_less PInf b = False"
| "fl_less a b = True"

text \<open>Python's built-in \<open>min(a, b)\<close> and \<open>max(a, b)\<close> on two floats: the first argument
  is kept unless the second is strictly smaller (larger).\<close>

definition py_min :: "fl \<Rightarrow> fl \<Rightarrow> fl" where
  "py_min a b = (if fl_less b a then b else a)"

definition py_max :: "fl \<Rightarrow> fl \<Rightarrow> fl" where
  "py_max a b = (if fl_less a b then b else a)"

text \<open>\<open>torch.min\<close> and \<open>torch.max\<close> of two values: a NaN wins.\<close>

definition t_min2 :: "fl \<Rightarrow> fl \<Rightarrow> fl" where
  "t_min2 a b = (if a = NaN \<or> b = NaN then NaN else if fl_less b a then b else a)"

definition t_max2 :: "fl \<Rightarrow> fl \<Rightarrow> fl" where
  "t_max2 a b = (if a = NaN \<or> b = NaN then NaN else if fl_less a b then b else a)"

text \<open>\<open>torch.clamp(v, lo, hi)\<close> with two Python floats as bounds.\<close>

definition clamp :: "fl \<Rightarrow> real \<Rightarrow> real \<Rightarrow> fl" where
  "clamp v lo hi = t_min2 (t_max2 v (Fin lo)) (Fin hi)"

definition fl_sum :: "fl list \<Rightarrow> fl" where
  "fl_sum vs = foldl fl_add (Fin 0) vs"

text \<open>
  A tensor is its shape and its elements in row-major order. Devices, dtypes and the
  autograd graph are not part of the model.
\<close>

record tensor =
  shape :: "nat list"
  vals :: "fl list"

definition numel :: "nat list \<Rightarrow> nat" where
  "numel sh = prod_list sh"

definition finite_tensor :: "tensor \<Rightarrow> bool" where
  "finite_tensor t = list_all is_Fin (vals t)"

datatype error = RuntimeError | IndexError | ValueError | KeyError | AttributeError | ShapeError

definition bind_e :: "error + 'a \<Rightarrow> ('a \<Rightarrow> error + 'b) \<Rightarrow> error + 'b" where
  "bind_e m f = (case m of Inl e \<Rightarrow> Inl e | Inr v \<Rightarrow> f v)"

definition tmap :: "(fl \<Rightarrow> fl) \<Rightarrow> tensor \<Rightarrow> tensor" where
  "tmap f t = \<lparr>shape = shape t, vals = map f (vals t)\<rparr>"

text \<open>\<open>t.min()\<close>, \<open>t.max()\<close>: a RuntimeError on a tensor with no element.\<close>

definition tensor_min :: "tensor \<Rightarrow> error + fl" where
  "tensor_min t = (case vals t of [] \<Rightarrow> Inl RuntimeError | v # vs \<Rightarrow> Inr (foldl t_min2 v vs))"

definition tensor_max :: "tensor \<Rightarrow> error + fl" where
  "tensor_max t = (case vals t of [] \<Rightarrow> Inl RuntimeError | v # vs \<Rightarrow> Inr (foldl t_max2 v vs))"

text \<open>\<open>torch.stack\<close>: a RuntimeError on the empty list and on tensors of different
  shapes; otherwise a new leading dimension.\<close>

definition stack :: "tensor list \<Rightarrow> error + tensor" where
  "stack ts =
     (case ts of
        [] \<Rightarrow> Inl RuntimeError
      | t # rest \<Rightarrow>
          if list_all (\<lambda>u. shape u = shape t) rest
          then Inr \<lparr>shape = length ts # shape t, vals = concat (map vals ts)\<rparr>
          else Inl RuntimeError)"

text \<open>\<open>torch.std\<close> of all elements, with Bessel's correction: NaN for fewer than two
  elements and as soon as one element is not finite.\<close>

definition std_reals :: "real list \<Rightarrow> real" where
  "std_reals rs =
     (let n = real (length rs); m = sum_list rs / n
      in sqrt (sum_list (map (\<lambda>r. (r - m)\<^sup>2) rs) / (n - 1)))"

definition std :: "tensor \<Rightarrow> fl" where
  "std t =
     (if length (vals t) < 2 \<or> \<not> list_all is_Fin (vals t) then NaN
      else Fin (std_reals (map real_of (vals t))))"

section \<open>The random generator\<close>

text \<open>
  PyTorch's global generator is not in the repository: its state is a type \<open>'g\<close> and its
  primitives are a record of functions. \<open>gauss T g k\<close> is the \<open>k\<close>-th standard normal
  value drawn from state \<open>g\<close>, \<open>unif\<close> the \<open>k\<close>-th uniform value of \<open>[0, 1)\<close>, \<open>lapl\<close> the
  \<open>k\<close>-th standard Laplace value, \<open>perm\<close> the \<open>k\<close>-th entry of \<open>torch.randperm(256)\<close>;
  \<open>after T g n\<close> is the state once \<open>n\<close> values are drawn and \<open>seeded T s\<close> the state that
  \<open>torch.manual_seed(s)\<close> sets.
\<close>

record 'g torch_rng =
  gauss :: "'g \<Rightarrow> nat \<Rightarrow> real"
  unif :: "'g \<Rightarrow> nat \<Rightarrow> real"
  lapl :: "'g \<Rightarrow> nat \<Rightarrow> real"
  perm :: "'g \<Rightarrow> nat \<Rightarrow> nat"
  after :: "'g \<Rightarrow> nat \<Rightarrow> 'g"
  seeded :: "int \<Rightarrow> 'g"

definition randn_like :: "'g torch_rng \<Rightarrow> 'g \<Rightarrow> tensor \<Rightarrow> tensor \<times> 'g" where
  "randn_like T g x =
     (\<lparr>shape = shape x, vals = map (\<lambda>k. Fin (gauss T g k)) [0..<numel (shape x)]\<rparr>,
      after T g (numel (shape x)))"

definition rand_like :: "'g torch_rng \<Rightarrow> 'g \<Rightarrow> tensor \<Rightarrow> tensor \<times> 'g" where
  "rand_like T g x =
     (\<lparr>shape = shape x, vals = map (\<lambda>k. Fin (unif T g k)) [0..<numel (shape x)]\<rparr>,
      after T g (numel (shape x)))"

definition laplace_sample :: "'g torch_rng \<Rightarrow> 'g \<Rightarrow> tensor \<Rightarrow> tensor \<times> 'g" where
  "laplace_sample T g x =
     (\<lparr>shape = shape x, vals = map (\<lambda>k. Fin (lapl T g k)) [0..<numel (shape x)]\<rparr>,
      after T g (numel (shape x)))"

section \<open>noise.py: AdaptiveNoiseGenerator\<close>

text \<open>The instance: its history and the three constants set by \<open>__init__\<close>.\<close>

record noise_gen =
  noise_history :: "tensor list"
  adaptation_rate :: real
  min_std :: real
  max_std :: real

definition new_generator :: noise_gen where
  "new_generator =
     \<lparr>noise_history = [], adaptation_rate = 1 / 100, min_std = 1 / 100, max_std = 2\<rparr>"

text \<open>The slice \<open>xs[-k:]\<close> of a Python list, for \<open>k > 0\<close>.\<close>

definition last_n :: "nat \<Rightarrow> 'a list \<Rightarrow> 'a list" where
  "last_n k xs = drop (length xs - k) xs"

text \<open>
  \<open>calculate_adaptive_std\<close> (noise.py, lines 15-27). \<open>current_std\<close> is computed, as in
  the source, and not used.
\<close>

definition calculate_adaptive_std :: "noise_gen \<Rightarrow> tensor \<Rightarrow> error + fl" where
  "calculate_adaptive_std G x =
     (if length (noise_history G) > 0 then
        bind_e (stack (last_n 100 (noise_history G))) (\<lambda>recent_noise.
          let current_std = std recent_noise;
              signal_std = std x;
              adaptive_std = clamp (fl_mul signal_std (Fin (adaptation_rate G)))
                               (min_std G) (max_std G)
          in Inr adaptive_std)
      else Inr (Fin 1))"

text \<open>\<open>generate_perlin_noise\<close> (lines 68-102) and its local functions.\<close>

definition fade :: "real \<Rightarrow> real" where
  "fade t = 6 * t ^ 5 - 15 * t ^ 4 + 10 * t ^ 3"

definition lerp :: "real \<Rightarrow> real \<Rightarrow> real \<Rightarrow> real" where
  "lerp a b x = a + x * (b - a)"

definition grad :: "nat \<Rightarrow> real \<Rightarrow> real" where
  "grad hash x =
     (let h = hash AND 15;
          gr = 1 + int (h AND 7);
          gr' = (if h AND 8 \<noteq> 0 then - gr else gr)
      in real_of_int gr' * x)"

text \<open>One cell of the lattice; \<open>p\<close> is the permutation table doubled, of length 512.\<close>

definition perlin_cell :: "(nat \<Rightarrow> nat) \<Rightarrow> nat \<Rightarrow> nat \<Rightarrow> nat \<Rightarrow> nat \<Rightarrow> real" where
  "perlin_cell p H W i j =
     (let x0 = real i / real H; y0 = real j / real W;
          X = nat \<lfloor>x0\<rfloor> AND 255; Y = nat \<lfloor>y0\<rfloor> AND 255;
          x = x0 - of_int \<lfloor>x0\<rfloor>; y = y0 - of_int \<lfloor>y0\<rfloor>;
          u = fade x; v = fade y;
          A = (p X + Y) AND 255;
          B = (p (X + 1) + Y) AND 255
      in lerp (lerp (grad (p A) x) (grad (p B) (x - 1)) u)
              (lerp (grad (p (A + 1)) x) (grad (p (B + 1)) (x - 1)) u)
              v)"

definition normalized_noise :: "'g torch_rng \<Rightarrow> 'g \<Rightarrow> nat \<Rightarrow> nat \<Rightarrow> error + tensor" where
  "normalized_noise T g H W =
     (let p = (\<lambda>k. perm T g (k mod 256));
          noise = \<lparr>shape = [H, W],
                   vals = concat (map (\<lambda>i. map (\<lambda>j. Fin (perlin_cell p H W i j)) [0..<W]) [0..<H])\<rparr>
      in bind_e (tensor_min noise) (\<lambda>mn.
         bind_e (tensor_max noise) (\<lambda>mx.
           Inr (tmap (\<lambda>v. fl_sub (fl_mul (fl_div (fl_sub v mn) (fl_sub mx mn)) (Fin 2)) (Fin 1))
                  noise))))"

definition generate_perlin_noise :: "'g torch_rng \<Rightarrow> 'g \<Rightarrow> nat list \<Rightarrow> error + tensor \<times> 'g" where
  "generate_perlin_noise T g sh =
     (if length sh < 2 then Inl IndexError
      else
        bind_e (normalized_noise T g (sh ! (length sh - 2)) (sh ! (length sh - 1))) (\<lambda>base_noise.
          Inr (\<lparr>shape = sh,
                vals = concat (replicate (numel (take (length sh - 2) sh)) (vals base_noise))\<rparr>,
               after T g 256)))"

text \<open>
  \<open>get_noise\<close> (lines 29-66), in its three parts: \<open>reseed\<close> is lines 30-32 (a seed is given
  to \<open>torch.manual_seed\<close> and to \<open>np.random.seed\<close>, which accepts \<open>0 \<le> s < 2^32\<close> only),
  \<open>pick_noise\<close> is the chain of cases on the noise type (lines 34-60) and \<open>remember\<close> is the
  update of the history (lines 62-64). The result holds the returned noise, the instance
  and the generator after the call, and the lines printed.
\<close>

definition reseed :: "'g torch_rng \<Rightarrow> 'g \<Rightarrow> int option \<Rightarrow> error + 'g" where
  "reseed T g seed =
     (case seed of
        None \<Rightarrow> Inr g
      | Some s \<Rightarrow> if 0 \<le> s \<and> s < 2 ^ 32 then Inr (seeded T s) else Inl ValueError)"

record 'g noise_result =
  noise_out :: tensor
  gen_out :: noise_gen
  rng_out :: 'g
  printed :: "string list"

definition remember :: "noise_gen \<Rightarrow> tensor \<Rightarrow> noise_gen" where
  "remember G noise =
     (let h = noise_history G;
          h' = (if length h \<ge> 100 then tl h else h)
      in G\<lparr>noise_history := h' @ [noise]\<rparr>)"

definition pick_noise ::
  "'g torch_rng \<Rightarrow> noise_gen \<Rightarrow> 'g \<Rightarrow> tensor \<Rightarrow> string \<Rightarrow> error + (tensor \<times> 'g \<times> string list)" where
  "pick_noise T G g x noise_type =
     (if noise_type = ''adaptive_gaussian'' then
        bind_e (calculate_adaptive_std G x) (\<lambda>sd.
          let (r, g1) = randn_like T g x
          in Inr (tmap (\<lambda>v. fl_mul v sd) r, g1, []))
      else if noise_type = ''gaussian'' then
        (let (r, g1) = randn_like T g x in Inr (r, g1, []))
      else if noise_type = ''uniform'' then
        (let (r, g1) = rand_like T g x
         in Inr (tmap (\<lambda>v. fl_sub (fl_mul v (Fin 2)) (Fin 1)) r, g1, []))
      else if noise_type = ''laplace'' then
        (let (r, g1) = laplace_sample T g x in Inr (r, g1, []))
      else if noise_type = ''mixture'' then
        (let (noise1, g1) = randn_like T g x;
             (r2, g2) = randn_like T g1 x;
             noise2 = tmap (\<lambda>v. fl_mul v (Fin 2)) r2;
             (mix, g3) = rand_like T g2 x
         in Inr (\<lparr>shape = shape x,
                  vals = map (\<lambda>(m, a, b). if fl_less (Fin (1 / 2)) m then a else b)
                           (zip (vals mix) (zip (vals noise1) (vals noise2)))\<rparr>,
                 g3, []))
      else if noise_type = ''perlin'' then
        bind_e (generate_perlin_noise T g (shape x)) (\<lambda>(r, g1). Inr (r, g1, []))
      else
        (let (r, g1) = randn_like T g x
         in Inr (r, g1,
                 [''Unknown noise type: '' @ noise_type @ ''. Using default Gaussian noise.''])))"

definition get_noise ::
  "'g torch_rng \<Rightarrow> noise_gen \<Rightarrow> 'g \<Rightarrow> tensor \<Rightarrow> string \<Rightarrow> int option \<Rightarrow> error + 'g noise_result" where
  "get_noise T G g0 x noise_type seed =
     bind_e (reseed T g0 seed) (\<lambda>g.
     bind_e (pick_noise T G g x noise_type) (\<lambda>(noise, g1, out).
       Inr \<lparr>noise_out = noise, gen_out = remember G noise, rng_out = g1, printed = out\<rparr>))"

text \<open>
  A sequence of calls on one instance. Each call comes with the state of the global
  generator it finds, its input, its noise type and its seed; a call that raises leaves
  the instance as it was. The result is the instance after the last call and the noise
  tensors generated, in call order.
\<close>

type_synonym 'g noise_call = "'g \<times> tensor \<times> string \<times> int option"

fun run_calls :: "'g torch_rng \<Rightarrow> noise_gen \<Rightarrow> 'g noise_call list \<Rightarrow> noise_gen \<times> tensor list" where
  "run_calls T G [] = (G, [])"
| "run_calls T G ((g, x, noise_type, seed) # cs) =
     (case get_noise T G g x noise_type seed of
        Inl e \<Rightarrow> run_calls T G cs
      | Inr r \<Rightarrow> (let (G', ns) = run_calls T (gen_out r) cs in (G', noise_out r # ns)))"

section \<open>Concrete inputs\<close>

definition demo_rng :: "nat torch_rng" where
  "demo_rng = \<lparr>gauss = (\<lambda>g k. real (g + k)), unif = (\<lambda>g k. 0), lapl = (\<lambda>g k. 0),
                perm = (\<lambda>g k. k), after = (\<lambda>g n. g + n), seeded = (\<lambda>s. nat s)\<rparr>"

definition demo_x :: tensor where
  "demo_x = \<lparr>shape = [1], vals = [Fin 0]\<rparr>"

definition demo_calls :: "nat noise_call list" where
  "demo_calls = map (\<lambda>k. (k, demo_x, ''gaussian'', None)) [0..<150]"

section \<open>noise.py: concrete histories and calls\<close>

definition uniform_shapes :: "tensor list \<Rightarrow> bool" where
  "uniform_shapes ts = (case ts of [] \<Rightarrow> True | t # rest \<Rightarrow> list_all (\<lambda>u. shape u = shape t) rest)"

definition demo_hist_a :: "tensor list" where
  "demo_hist_a = [\<lparr>shape = [2], vals = [Fin 0, Fin 0]\<rparr>]"

definition demo_hist_b :: "tensor list" where
  "demo_hist_b = [\<lparr>shape = [2], vals = [Fin (- 1), Fin 1]\<rparr>]"

definition demo_signal :: tensor where
  "demo_signal = \<lparr>shape = [3], vals = [Fin (- 1), Fin 0, Fin 1]\<rparr>"

definition demo_mixed_calls :: "nat noise_call list" where
  "demo_mixed_calls =
     [(0, \<lparr>shape = [2], vals = [Fin 0, Fin 0]\<rparr>, ''gaussian'', None),
      (0, \<lparr>shape = [3], vals = [Fin 0, Fin 0, Fin 0]\<rparr>, ''gaussian'', None)]"

section \<open>anomaly_map.py: normalisation and fusion\<close>

text \<open>
  Elementwise operations on two tensors. The model covers operands of one shape and the
  broadcast the source relies on, a coefficient of shape \<open>[B, 1, ..., 1]\<close> against a
  tensor of shape \<open>[B, ...]\<close> of the same rank; every other pair of shapes is reported as
  \<open>ShapeError\<close> (section 7 of the specification makes a shape mismatch fatal; PyTorch
  itself would broadcast further compatible shapes).
\<close>

definition per_sample :: "tensor \<Rightarrow> tensor \<Rightarrow> bool" where
  "per_sample c x =
     (shape x \<noteq> [] \<and> shape c = hd (shape x) # replicate (length (shape x) - 1) 1)"

definition expand :: "tensor \<Rightarrow> tensor \<Rightarrow> fl list" where
  "expand c x = concat (map (replicate (numel (tl (shape x)))) (vals c))"

definition tbin :: "(fl \<Rightarrow> fl \<Rightarrow> fl) \<Rightarrow> tensor \<Rightarrow> tensor \<Rightarrow> error + tensor" where
  "tbin f a b =
     (if shape a = shape b then Inr \<lparr>shape = shape a, vals = map2 f (vals a) (vals b)\<rparr>
      else if per_sample a b then Inr \<lparr>shape = shape b, vals = map2 f (expand a b) (vals b)\<rparr>
      else if per_sample b a then Inr \<lparr>shape = shape a, vals = map2 f (vals a) (expand b a)\<rparr>
      else Inl ShapeError)"

text \<open>A Python float times, plus or minus a tensor.\<close>

definition smul :: "fl \<Rightarrow> tensor \<Rightarrow> tensor" where
  "smul c t = tmap (fl_mul c) t"

fun map_e :: "('a \<Rightarrow> error + 'b) \<Rightarrow> 'a list \<Rightarrow> error + 'b list" where
  "map_e f [] = Inr []"
| "map_e f (x # xs) = bind_e (f x) (\<lambda>y. bind_e (map_e f xs) (\<lambda>ys. Inr (y # ys)))"

definition scalar_tensor :: "fl \<Rightarrow> tensor" where
  "scalar_tensor v = \<lparr>shape = [], vals = [v]\<rparr>"

text \<open>\<open>t.mean()\<close>: NaN on a tensor with no element.\<close>

definition tensor_mean :: "tensor \<Rightarrow> fl" where
  "tensor_mean t = fl_div (fl_sum (vals t)) (Fin (real (length (vals t))))"

fun fl_abs :: "fl \<Rightarrow> fl" where
  "fl_abs (Fin a) = Fin \<bar>a\<bar>"
| "fl_abs PInf = PInf"
| "fl_abs NInf = PInf"
| "fl_abs NaN = NaN"

text \<open>\<open>F.softmax\<close> over scores none of which is \<open>-inf\<close>: NaN everywhere as soon as one
  score is not finite.\<close>

definition softmax :: "fl list \<Rightarrow> fl list" where
  "softmax xs =
     (if list_all is_Fin xs
      then map (\<lambda>x. Fin (exp (real_of x) / sum_list (map (\<lambda>y. exp (real_of y)) xs))) xs
      else map (\<lambda>x. NaN) xs)"

text \<open>Python's \<open>sum\<close> over a list of tensors starts from the int 0. On the empty list
  the result is that int, which has no \<open>min\<close> and no \<open>shape\<close>: the AttributeError that its
  first use raises is reported here.\<close>

fun sum_from :: "tensor \<Rightarrow> tensor list \<Rightarrow> error + tensor" where
  "sum_from acc [] = Inr acc"
| "sum_from acc (t # ts) = bind_e (tbin fl_add acc t) (\<lambda>acc'. sum_from acc' ts)"

definition py_sum :: "tensor list \<Rightarrow> error + tensor" where
  "py_sum ts =
     (case ts of
        [] \<Rightarrow> Inl AttributeError
      | t # rest \<Rightarrow> sum_from (tmap (fl_add (Fin 0)) t) rest)"

text \<open>\<open>AdaptiveWeightCalculator.calculate_weights\<close> (anomaly_map.py, lines 14-22).\<close>

definition calculate_weights :: "real \<Rightarrow> tensor list \<Rightarrow> fl list" where
  "calculate_weights temperature maps =
     (let scores = map (\<lambda>m. tensor_mean (tmap fl_abs m)) maps
      in softmax (map (\<lambda>s. fl_div s (Fin temperature)) scores))"

text \<open>\<open>calculate_min_max_of_tensors\<close> (lines 254-258).\<close>

definition calculate_min_max_of_tensors :: "tensor list \<Rightarrow> error + fl \<times> fl" where
  "calculate_min_max_of_tensors tensors =
     bind_e (map_e tensor_min tensors) (\<lambda>mins.
     bind_e (stack (map scalar_tensor mins)) (\<lambda>min_values.
     bind_e (map_e tensor_max tensors) (\<lambda>maxs.
     bind_e (stack (map scalar_tensor maxs)) (\<lambda>max_values.
     bind_e (tensor_min min_values) (\<lambda>lo.
     bind_e (tensor_max max_values) (\<lambda>hi. Inr (lo, hi)))))))"

text \<open>\<open>scale_values_between_zero_and_one\<close> (lines 260-263). Over the reals the \<open>1e-8\<close>
  always stays in the denominator; in float32 it is absorbed by a range of about 0.25 or
  more, and the maximum is then mapped to exactly 1. The statements on this function say
  \<open>\<le> 1\<close> for that reason.\<close>

definition scale_values_between_zero_and_one :: "tensor list \<Rightarrow> error + tensor list" where
  "scale_values_between_zero_and_one tensors =
     bind_e (calculate_min_max_of_tensors tensors) (\<lambda>(min_value, max_value).
       Inr (map (tmap (\<lambda>v. fl_div (fl_sub v min_value)
                             (fl_add (fl_sub max_value min_value) (Fin (1 / 10 ^ 8)))))
              tensors))"

text \<open>
  \<open>apply_deep_supervision\<close> (lines 318-342). \<open>F.interpolate\<close> is PyTorch's: the model takes
  it as the parameter \<open>interp\<close>, called with the map and the target size.
\<close>

definition deep_branch ::
  "(tensor \<Rightarrow> nat \<Rightarrow> error + tensor) \<Rightarrow> tensor \<Rightarrow> bool \<Rightarrow> nat \<Rightarrow> error + tensor" where
  "deep_branch interp feature_map residual sz =
     bind_e (interp feature_map sz) (\<lambda>scaled_map.
     bind_e (if residual
             then bind_e (interp feature_map sz) (\<lambda>again. tbin fl_add scaled_map again)
             else Inr scaled_map) (\<lambda>scaled_map'.
       interp scaled_map' (last (shape feature_map))))"

definition apply_deep_supervision ::
  "(tensor \<Rightarrow> nat \<Rightarrow> error + tensor) \<Rightarrow> tensor \<Rightarrow> error + tensor" where
  "apply_deep_supervision interp feature_map =
     (if shape feature_map = [] then Inl IndexError
      else
        let n = last (shape feature_map)
        in bind_e (deep_branch interp feature_map False n) (\<lambda>m1.
           bind_e (deep_branch interp feature_map True (nat \<lfloor>real n * (3 / 4)\<rfloor>)) (\<lambda>m2.
           bind_e (deep_branch interp feature_map True (nat \<lfloor>real n * (1 / 2)\<rfloor>)) (\<lambda>m3.
           bind_e (py_sum [m1, m2, m3]) (\<lambda>s.
             Inr (tmap (\<lambda>v. fl_div v (Fin 3)) s))))))"

text \<open>The closing line of \<open>fuse_heat_maps\<close>: min-max normalisation of one map.\<close>

definition renormalize :: "tensor \<Rightarrow> error + tensor" where
  "renormalize fused_map =
     bind_e (tensor_min fused_map) (\<lambda>lo.
     bind_e (tensor_max fused_map) (\<lambda>hi.
     bind_e (tensor_min fused_map) (\<lambda>lo'.
       Inr (tmap (\<lambda>v. fl_div (fl_sub v lo) (fl_add (fl_sub hi lo') (Fin (1 / 10 ^ 8))))
              fused_map))))"

text \<open>
  \<open>fuse_heat_maps\<close> (lines 265-316). The weights are a dictionary from names to floats;
  a name that is missing raises KeyError.
\<close>

definition default_weights :: "string \<rightharpoonup> real" where
  "default_weights = [''recon'' \<mapsto> 3 / 10, ''feature'' \<mapsto> 4 / 10, ''latent'' \<mapsto> 3 / 10]"

definition lookup :: "(string \<rightharpoonup> 'v) \<Rightarrow> string \<Rightarrow> error + 'v" where
  "lookup d k = (case d k of None \<Rightarrow> Inl KeyError | Some v \<Rightarrow> Inr v)"

definition fuse_heat_maps ::
  "(tensor \<Rightarrow> nat \<Rightarrow> error + tensor) \<Rightarrow> tensor \<Rightarrow> tensor \<Rightarrow> tensor list \<Rightarrow>
   (string \<rightharpoonup> real) option \<Rightarrow> bool \<Rightarrow> bool \<Rightarrow> error + tensor" where
  "fuse_heat_maps interp recon_map feature_map latent_maps weights0 adaptive_fusion deep_supervision =
     (let weights = (case weights0 of None \<Rightarrow> default_weights | Some w \<Rightarrow> w)
      in bind_e (py_sum latent_maps) (\<lambda>latent_sum.
         bind_e (if deep_supervision
                 then map_e (apply_deep_supervision interp) [recon_map, feature_map, latent_sum]
                 else Inr [recon_map, feature_map, latent_sum]) (\<lambda>maps_to_fuse.
         bind_e (scale_values_between_zero_and_one maps_to_fuse) (\<lambda>normalized_maps.
         bind_e (if adaptive_fusion
                 then py_sum (map2 smul (calculate_weights 1 normalized_maps) normalized_maps)
                 else
                   bind_e (lookup weights ''recon'') (\<lambda>wr.
                   bind_e (lookup weights ''feature'') (\<lambda>wf.
                   bind_e (tbin fl_add (smul (Fin wr) (normalized_maps ! 0))
                                       (smul (Fin wf) (normalized_maps ! 1))) (\<lambda>s.
                   bind_e (lookup weights ''latent'') (\<lambda>wl.
                     tbin fl_add s (smul (Fin wl) (normalized_maps ! 2))))))) (\<lambda>fused_map.
           renormalize fused_map)))))"

definition all_values :: "tensor list \<Rightarrow> real set" where
  "all_values ts = (\<Union>t\<in>set ts. real_of ` set (vals t))"

definition demo_tiny :: tensor where
  "demo_tiny = \<lparr>shape = [2], vals = [Fin 0, Fin (1 / 10 ^ 8)]\<rparr>"

definition recon_only_weights :: "string \<rightharpoonup> real" where
  "recon_only_weights = [''recon'' \<mapsto> 1, ''feature'' \<mapsto> 0, ''latent'' \<mapsto> 0]"

definition demo_interp :: "tensor \<Rightarrow> nat \<Rightarrow> error + tensor" where
  "demo_interp t n = Inr t"

definition demo_recon :: tensor where
  "demo_recon = \<lparr>shape = [2], vals = [Fin 0, Fin 1]\<rparr>"

definition demo_feature :: tensor where
  "demo_feature = \<lparr>shape = [2], vals = [Fin 0, Fin (10 ^ 8)]\<rparr>"

definition spread :: "tensor list \<Rightarrow> real" where
  "spread ts = Max (all_values ts) - Min (all_values ts) + 1 / 10 ^ 8"

text \<open>The first normalisation of \<open>fuse_heat_maps\<close> on one value: by the minimum and the
  maximum over all the maps of the list.\<close>

definition global_scaled :: "tensor list \<Rightarrow> real \<Rightarrow> real" where
  "global_scaled ts u = (u - Min (all_values ts)) / spread ts"

section \<open>forward_process.py: AdaptiveForwardDiffusion\<close>

text \<open>
  forward_process.py has an \<open>AdaptiveNoiseGenerator\<close> of its own, the one
  \<open>AdaptiveForwardDiffusion\<close> uses. Its \<open>calculate_adaptive_std\<close> (lines 116-129) is the
  one of noise.py, with the tensor 1.0 in place of the float 1.0; its \<open>get_noise\<close> (lines
  131-148) knows two cases only and prints nothing.
\<close>

definition fp_get_noise ::
  "'g torch_rng \<Rightarrow> noise_gen \<Rightarrow> 'g \<Rightarrow> tensor \<Rightarrow> string \<Rightarrow> int option \<Rightarrow> error + 'g noise_result" where
  "fp_get_noise T G g0 x noise_type seed =
     bind_e (reseed T g0 seed) (\<lambda>g.
     bind_e (if noise_type = ''adaptive_gaussian'' then
               bind_e (calculate_adaptive_std G x) (\<lambda>sd.
                 let (r, g1) = randn_like T g x in Inr (tmap (\<lambda>v. fl_mul v sd) r, g1))
             else (let (r, g1) = randn_like T g x in Inr (r, g1))) (\<lambda>(noise, g1).
       Inr \<lparr>noise_out = noise, gen_out = remember G noise, rng_out = g1, printed = []\<rparr>))"

text \<open>
  \<open>get_index_from_list\<close> (lines 13-17): \<open>vals\<close> is a one-dimensional table and \<open>t\<close> a
  one-dimensional tensor of indices. \<open>gather\<close> raises on an index outside
  \<open>0 \<le> i < len(vals)\<close>; the result has one entry per index and the rank of \<open>x\<close>.
\<close>

definition get_index_from_list :: "fl list \<Rightarrow> int list \<Rightarrow> nat list \<Rightarrow> error + tensor" where
  "get_index_from_list vs t x_shape =
     (let batch_size = length t
      in if list_all (\<lambda>i. 0 \<le> i \<and> i < int (length vs)) t
         then Inr \<lparr>shape = batch_size # replicate (length x_shape - 1) 1,
                   vals = map (\<lambda>i. vs ! nat i) t\<rparr>
         else Inl RuntimeError)"

text \<open>
  \<open>AdaptiveForwardDiffusion.forward_diffusion_sample\<close> (lines 24-62), on the instance's
  noise generator \<open>G\<close>: the noisy image, the noise, and the generator and the random state
  after the call.
\<close>

definition forward_diffusion_sample_method ::
  "'g torch_rng \<Rightarrow> noise_gen \<Rightarrow> 'g \<Rightarrow> tensor \<Rightarrow> int list \<Rightarrow> (string \<rightharpoonup> fl list) \<Rightarrow> string \<Rightarrow>
   error + (tensor \<times> tensor \<times> noise_gen \<times> 'g)" where
  "forward_diffusion_sample_method T G g x_0 t constant_dict noise_type =
     bind_e (lookup constant_dict ''sqrt_alphas_cumprod'') (\<lambda>sqrt_alphas_cumprod.
     bind_e (lookup constant_dict ''sqrt_one_minus_alphas_cumprod'') (\<lambda>sqrt_one_minus_alphas_cumprod.
     bind_e (fp_get_noise T G g x_0 noise_type None) (\<lambda>r.
     bind_e (get_index_from_list sqrt_alphas_cumprod t (shape x_0)) (\<lambda>sqrt_alphas_cumprod_t.
     bind_e (get_index_from_list sqrt_one_minus_alphas_cumprod t (shape x_0))
       (\<lambda>sqrt_one_minus_alphas_cumprod_t.
     bind_e (tbin fl_mul sqrt_alphas_cumprod_t x_0) (\<lambda>a.
     bind_e (tbin fl_mul sqrt_one_minus_alphas_cumprod_t (noise_out r)) (\<lambda>b.
     bind_e (tbin fl_add a b) (\<lambda>x.
       Inr (x, noise_out r, gen_out r, rng_out r)))))))))"

text \<open>The module's \<open>forward_diffusion_sample\<close> (lines 151-154) builds a new
  \<open>AdaptiveForwardDiffusion\<close>, hence a new generator, at every call.\<close>

definition forward_diffusion_sample ::
  "'g torch_rng \<Rightarrow> 'g \<Rightarrow> tensor \<Rightarrow> int list \<Rightarrow> (string \<rightharpoonup> fl list) \<Rightarrow> string \<Rightarrow>
   error + (tensor \<times> tensor \<times> noise_gen \<times> 'g)" where
  "forward_diffusion_sample T g x_0 t constant_dict noise_type =
     forward_diffusion_sample_method T new_generator g x_0 t constant_dict noise_type"

definition full :: "nat list \<Rightarrow> fl \<Rightarrow> tensor" where
  "full sh v = \<lparr>shape = sh, vals = replicate (numel sh) v\<rparr>"

definition ones_rng :: "nat torch_rng" where
  "ones_rng = \<lparr>gauss = (\<lambda>g k. 1), unif = (\<lambda>g k. 0), lapl = (\<lambda>g k. 0),
                perm = (\<lambda>g k. k), after = (\<lambda>g n. g + n), seeded = (\<lambda>s. nat s)\<rparr>"

definition demo_schedule :: "string \<rightharpoonup> fl list" where
  "demo_schedule = [''sqrt_alphas_cumprod'' \<mapsto> [Fin (99 / 100), Fin (9 / 10)],
                    ''sqrt_one_minus_alphas_cumprod'' \<mapsto> [Fin (14 / 100), Fin (4 / 10)]]"

section \<open>loss.py: get_loss\<close>

text \<open>\<open>cumprod(dim=0)\<close> of a one-dimensional tensor, and \<open>index_select(0, t)\<close>, which
  raises on an index outside \<open>0 \<le> i < len\<close>.\<close>

fun cumprod_from :: "fl \<Rightarrow> fl list \<Rightarrow> fl list" where
  "cumprod_from acc [] = []"
| "cumprod_from acc (x # xs) = fl_mul acc x # cumprod_from (fl_mul acc x) xs"

definition cumprod :: "fl list \<Rightarrow> fl list" where
  "cumprod xs = cumprod_from (Fin 1) xs"

definition index_select :: "fl list \<Rightarrow> int list \<Rightarrow> error + fl list" where
  "index_select vs t =
     (if list_all (\<lambda>i. 0 \<le> i \<and> i < int (length vs)) t
      then Inr (map (\<lambda>i. vs ! nat i) t)
      else Inl IndexError)"

text \<open>\<open>torch.norm(t, p=2)\<close> over all elements.\<close>

definition tensor_norm :: "tensor \<Rightarrow> fl" where
  "tensor_norm t = fl_sqrt (fl_sum (map (\<lambda>v. fl_mul v v) (vals t)))"

text \<open>
  loss.py, \<open>get_loss\<close>, lines 23-47: the three loss terms. The denoiser \<open>model\<close> is a
  parameter; it is called with the noisy batch and the time steps (\<open>a_t\<close> is the source's
  \<open>at\<close>). The fresh noise \<open>e\<close>
  comes from the global generator.
\<close>

definition loss_terms ::
  "'g torch_rng \<Rightarrow> 'g \<Rightarrow> (tensor \<Rightarrow> int list \<Rightarrow> tensor) \<Rightarrow> (string \<rightharpoonup> fl list) \<Rightarrow> tensor \<Rightarrow> int list \<Rightarrow>
   error + ((fl \<times> fl \<times> fl) \<times> 'g)" where
  "loss_terms T g model constant_dict x_0 t =
     bind_e (lookup constant_dict ''betas'') (\<lambda>b.
       let (e, g1) = randn_like T g x_0
       in bind_e (index_select (cumprod (map (fl_sub (Fin 1)) b)) t) (\<lambda>sel.
          let a_t = \<lparr>shape = [length sel, 1, 1, 1], vals = sel\<rparr>
          in bind_e (tbin fl_mul (tmap fl_sqrt a_t) x_0) (\<lambda>sx.
             bind_e (tbin fl_mul (tmap (\<lambda>a. fl_sqrt (fl_sub (Fin 1) a)) a_t) e) (\<lambda>se.
             bind_e (tbin fl_add sx se) (\<lambda>x.
               let output = model x t
               in bind_e (tbin fl_sub e output) (\<lambda>d.
                  let base_loss = tensor_mean (tmap (\<lambda>v. fl_mul v v) d);
                      time_weight = \<lparr>shape = [length t, 1, 1, 1],
                                      vals = map (\<lambda>i. fl_div (Fin 1) (Fin (of_int i + 1))) t\<rparr>;
                      adaptive_loss = tmap (\<lambda>v. fl_mul v v) d
                  in bind_e (tbin fl_mul adaptive_loss time_weight) (\<lambda>wl.
                     let weighted_adaptive_loss = tensor_mean wl
                     in bind_e (tbin fl_sub output e) (\<lambda>d'.
                        let noise_norm_loss = tensor_norm d'
                        in Inr ((base_loss, weighted_adaptive_loss, noise_norm_loss), g1)))))))))"

text \<open>Lines 49-66: the weights and the final loss.\<close>

definition final_loss :: "fl \<Rightarrow> fl \<Rightarrow> fl \<Rightarrow> fl" where
  "final_loss base_loss weighted_adaptive_loss noise_norm_loss =
     (let base_weight = fl_sigmoid base_loss;
          adaptive_weight = fl_sigmoid weighted_adaptive_loss;
          noise_weight = fl_sigmoid noise_norm_loss;
          total_weight = fl_add (fl_add base_weight adaptive_weight) noise_weight;
          normalized_base_weight = fl_div base_weight total_weight;
          normalized_adaptive_weight = fl_div adaptive_weight total_weight;
          normalized_noise_weight = fl_div noise_weight total_weight
      in fl_add (fl_add (fl_mul normalized_base_weight base_loss)
                        (fl_mul normalized_adaptive_weight weighted_adaptive_loss))
                (fl_mul normalized_noise_weight noise_norm_loss))"

definition get_loss ::
  "'g torch_rng \<Rightarrow> 'g \<Rightarrow> (tensor \<Rightarrow> int list \<Rightarrow> tensor) \<Rightarrow> (string \<rightharpoonup> fl list) \<Rightarrow> tensor \<Rightarrow> int list \<Rightarrow>
   error + (fl \<times> 'g)" where
  "get_loss T g model constant_dict x_0 t =
     bind_e (loss_terms T g model constant_dict x_0 t) (\<lambda>((base_loss, weighted_adaptive_loss, noise_norm_loss), g1).
       Inr (final_loss base_loss weighted_adaptive_loss noise_norm_loss, g1))"

text \<open>The weighting as the specification words it: the sigmoid of a loss term, divided by
  the sum of the three sigmoids.\<close>

definition sigmoid :: "real \<Rightarrow> real" where
  "sigmoid x = 1 / (1 + exp (- x))"

definition importance :: "real \<Rightarrow> real \<Rightarrow> real \<Rightarrow> real" where
  "importance x y z = sigmoid x / (sigmoid x + sigmoid y + sigmoid z)"

definition zero_model :: "tensor \<Rightarrow> int list \<Rightarrow> tensor" where
  "zero_model x t = tmap (\<lambda>v. Fin 0) x"

definition demo_betas :: "string \<rightharpoonup> fl list" where
  "demo_betas = [''betas'' \<mapsto> [Fin (1 / 2)]]"

section \<open>sample.py: the reverse samplers\<close>

text \<open>\<open>compute_adaptive_noise_scale\<close> (sample.py, lines 15-29); \<open>a_t\<close> is not used.\<close>

definition compute_adaptive_noise_scale :: "tensor \<Rightarrow> tensor \<Rightarrow> tensor \<Rightarrow> fl" where
  "compute_adaptive_noise_scale xt et a_t =
     (let noise_energy = tensor_norm et;
          signal_energy = tensor_norm xt;
          signal_to_noise_ratio = fl_div signal_energy (fl_add noise_energy (Fin (1 / 10 ^ 8)));
          adaptive_scale = fl_tanh (fl_mul signal_to_noise_ratio (Fin (1 / 10)))
      in py_max (Fin (1 / 2)) (py_min (Fin (3 / 2)) adaptive_scale))"

text \<open>
  The stochastic coefficients, lines 66-69 of \<open>my_generalized_steps\<close> and lines 112-115 of
  \<open>DA_generalized_steps\<close> (the same expressions), for one sample:
  \<open>c1 = eta * ((1 - at / at_next) * (1 - at_next) / (1 - at)).sqrt()\<close> and
  \<open>c2 = ((1 - at_next) - c1 ** 2).sqrt()\<close>. Over the reals the difference under the
  second square root is not negative for \<open>0 < at \<le> at_next \<le> 1\<close> and \<open>eta^2 \<le> 1\<close>; in
  float32 rounding can take it just below zero, and \<open>c2\<close> is then NaN. Rounding is outside
  the model: the statements below give a value to \<open>c2\<close> only where \<open>at_next = 1\<close> (the
  difference is exactly 0) or where \<open>c1\<close> is NaN.
\<close>

definition radicand :: "fl \<Rightarrow> fl \<Rightarrow> fl" where
  "radicand a a_next =
     fl_div (fl_mul (fl_sub (Fin 1) (fl_div a a_next)) (fl_sub (Fin 1) a_next)) (fl_sub (Fin 1) a)"

definition c1_of :: "fl \<Rightarrow> fl \<Rightarrow> fl \<Rightarrow> fl" where
  "c1_of eta a a_next = fl_mul eta (fl_sqrt (radicand a a_next))"

definition c2_of :: "fl \<Rightarrow> fl \<Rightarrow> fl \<Rightarrow> fl" where
  "c2_of eta a a_next =
     fl_sqrt (fl_sub (fl_sub (Fin 1) a_next) (fl_mul (c1_of eta a a_next) (c1_of eta a a_next)))"

text \<open>The same two lines on the tensors \<open>at\<close> and \<open>at_next\<close>, operation by operation.\<close>

definition stoch_coeffs :: "fl \<Rightarrow> tensor \<Rightarrow> tensor \<Rightarrow> error + tensor \<times> tensor" where
  "stoch_coeffs eta a_t a_next =
     bind_e (tbin fl_div a_t a_next) (\<lambda>q.
     bind_e (tbin fl_mul (tmap (fl_sub (Fin 1)) q) (tmap (fl_sub (Fin 1)) a_next)) (\<lambda>m.
     bind_e (tbin fl_div m (tmap (fl_sub (Fin 1)) a_t)) (\<lambda>rad.
       let c1 = smul eta (tmap fl_sqrt rad)
       in bind_e (tbin fl_sub (tmap (fl_sub (Fin 1)) a_next) (tmap (\<lambda>c. fl_mul c c) c1)) (\<lambda>s.
            Inr (c1, tmap fl_sqrt s)))))"

text \<open>
  Lines 57-62 (and 100-105): the re-noised conditioning image, the corrected noise
  estimate \<open>et_hat\<close> and the denoised estimate \<open>x0_t\<close>.
\<close>

definition corrected_estimate ::
  "fl \<Rightarrow> tensor \<Rightarrow> tensor \<Rightarrow> tensor \<Rightarrow> tensor \<Rightarrow> error + tensor \<times> tensor" where
  "corrected_estimate eta2 y xt et a_t =
     (let noise_scale = compute_adaptive_noise_scale xt et a_t;
          adaptive_eta2 = fl_mul eta2 noise_scale;
          sq = tmap fl_sqrt a_t;
          sq1 = tmap (\<lambda>a. fl_sqrt (fl_sub (Fin 1) a)) a_t
      in bind_e (tbin fl_mul sq y) (\<lambda>p1.
         bind_e (tbin fl_mul sq1 et) (\<lambda>p2.
         bind_e (tbin fl_add p1 p2) (\<lambda>yt.
         bind_e (tbin fl_sub yt xt) (\<lambda>dy.
         bind_e (tbin fl_mul (tmap (\<lambda>v. fl_mul v adaptive_eta2) sq1) dy) (\<lambda>corr.
         bind_e (tbin fl_sub et corr) (\<lambda>et_hat.
         bind_e (tbin fl_mul et_hat sq1) (\<lambda>p3.
         bind_e (tbin fl_sub xt p3) (\<lambda>num.
         bind_e (tbin fl_div num sq) (\<lambda>x0_t.
           Inr (et_hat, x0_t)))))))))))"

text \<open>Line 71 (and 117): \<open>xt_next = at_next.sqrt() * x0_t + c1 * z + c2 * et_hat\<close>, where
  \<open>z\<close> is the fresh \<open>torch.randn_like(x)\<close>.\<close>

definition next_state ::
  "tensor \<Rightarrow> tensor \<Rightarrow> tensor \<Rightarrow> tensor \<Rightarrow> tensor \<Rightarrow> tensor \<Rightarrow> error + tensor" where
  "next_state a_next x0_t c1 z c2 et_hat =
     bind_e (tbin fl_mul (tmap fl_sqrt a_next) x0_t) (\<lambda>p1.
     bind_e (tbin fl_mul c1 z) (\<lambda>p2.
     bind_e (tbin fl_add p1 p2) (\<lambda>s.
     bind_e (tbin fl_mul c2 et_hat) (\<lambda>p3.
       tbin fl_add s p3))))"

text \<open>\<open>s[idx]\<close> on a one-dimensional tensor, for \<open>idx \<ge> 0\<close>.\<close>

definition item_at :: "nat \<Rightarrow> int list \<Rightarrow> error + int" where
  "item_at idx s = (if idx < length s then Inr (s ! idx) else Inl IndexError)"

text \<open>
  \<open>my_generalized_steps\<close> (lines 31-75). \<open>compute_alpha2\<close> is imported from a module that
  is not in the repository: it is the parameter \<open>compute_alpha2\<close>, called with the betas and
  the time steps. \<open>model\<close> is the denoiser, \<open>eta\<close> is \<open>config.model.eta\<close>, and \<open>seq\<close> holds
  one step sequence per sample. One iteration of the loop:
\<close>

definition my_iteration ::
  "'g torch_rng \<Rightarrow> (fl list \<Rightarrow> int list \<Rightarrow> error + tensor) \<Rightarrow> (tensor \<Rightarrow> int list \<Rightarrow> tensor) \<Rightarrow>
   fl \<Rightarrow> fl \<Rightarrow> fl list \<Rightarrow> tensor \<Rightarrow> tensor \<Rightarrow> int list list \<Rightarrow> nat \<Rightarrow>
   tensor list \<times> tensor list \<times> 'g \<Rightarrow> error + tensor list \<times> tensor list \<times> 'g" where
  "my_iteration T compute_alpha2 model eta eta2 b y x seq idx st =
     (case st of (xs, x0_preds, g) \<Rightarrow>
        bind_e (map_e (item_at idx) seq) (\<lambda>t.
        bind_e (if idx = 0 then Inr (replicate (hd (shape x)) (- 1))
                else map_e (item_at (idx - 1)) seq) (\<lambda>next_t.
        bind_e (compute_alpha2 b t) (\<lambda>a_t.
        bind_e (compute_alpha2 b next_t) (\<lambda>a_next.
          let xt = last xs;
              et = model xt t
          in bind_e (corrected_estimate eta2 y xt et a_t) (\<lambda>(et_hat, x0_t).
             bind_e (stoch_coeffs eta a_t a_next) (\<lambda>(c1, c2).
               let (z, g1) = randn_like T g x
               in bind_e (next_state a_next x0_t c1 z c2 et_hat) (\<lambda>xt_next.
                    Inr (xs @ [xt_next], x0_preds @ [x0_t], g1)))))))))"

fun my_loop ::
  "'g torch_rng \<Rightarrow> (fl list \<Rightarrow> int list \<Rightarrow> error + tensor) \<Rightarrow> (tensor \<Rightarrow> int list \<Rightarrow> tensor) \<Rightarrow>
   fl \<Rightarrow> fl \<Rightarrow> fl list \<Rightarrow> tensor \<Rightarrow> tensor \<Rightarrow> int list list \<Rightarrow> nat list \<Rightarrow>
   tensor list \<times> tensor list \<times> 'g \<Rightarrow> error + tensor list \<times> tensor list \<times> 'g" where
  "my_loop T compute_alpha2 model eta eta2 b y x seq [] st = Inr st"
| "my_loop T compute_alpha2 model eta eta2 b y x seq (idx # rest) st =
     bind_e (my_iteration T compute_alpha2 model eta eta2 b y x seq idx st)
       (my_loop T compute_alpha2 model eta eta2 b y x seq rest)"

definition my_generalized_steps ::
  "'g torch_rng \<Rightarrow> 'g \<Rightarrow> (fl list \<Rightarrow> int list \<Rightarrow> error + tensor) \<Rightarrow> (tensor \<Rightarrow> int list \<Rightarrow> tensor) \<Rightarrow>
   fl \<Rightarrow> tensor \<Rightarrow> tensor \<Rightarrow> int list list \<Rightarrow> fl list \<Rightarrow> fl \<Rightarrow>
   error + tensor list \<times> tensor list \<times> 'g" where
  "my_generalized_steps T g compute_alpha2 model eta y x seq b eta2 =
     (if shape x = [] then Inl IndexError
      else case seq of
             [] \<Rightarrow> Inl IndexError
           | s0 # more_seqs \<Rightarrow>
               my_loop T compute_alpha2 model eta eta2 b y x seq (rev [0..<length s0]) ([x], [], g))"

text \<open>
  \<open>DA_generalized_steps\<close> (lines 77-121): \<open>seq\<close> is one list of steps for the whole batch,
  \<open>compute_alpha\<close> is again a parameter, and \<open>at_half\<close> is computed and not used. The first
  iteration takes zero tensors for \<open>c1\<close> and \<open>c2\<close>.
\<close>

definition trunc_half :: "int \<Rightarrow> int" where
  "trunc_half i = (if 0 \<le> i then i div 2 else - ((- i) div 2))"

definition da_iteration ::
  "'g torch_rng \<Rightarrow> (fl list \<Rightarrow> int list \<Rightarrow> error + tensor) \<Rightarrow> (tensor \<Rightarrow> int list \<Rightarrow> tensor) \<Rightarrow>
   fl \<Rightarrow> fl \<Rightarrow> fl list \<Rightarrow> tensor \<Rightarrow> tensor \<Rightarrow> bool \<Rightarrow> int \<times> int \<Rightarrow>
   tensor list \<times> tensor list \<times> 'g \<Rightarrow> error + tensor list \<times> tensor list \<times> 'g" where
  "da_iteration T compute_alpha model eta eta2 b y x first ij st =
     (case st of (xs, x0_preds, g) \<Rightarrow>
        let n = hd (shape x);
            t = replicate n (fst ij);
            next_t = replicate n (snd ij)
        in bind_e (compute_alpha b t) (\<lambda>a_t.
           bind_e (compute_alpha b (map trunc_half t)) (\<lambda>at_half.
           bind_e (compute_alpha b next_t) (\<lambda>a_next.
             let xt = last xs;
                 et = model xt t
             in bind_e (corrected_estimate eta2 y xt et a_t) (\<lambda>(et_hat, x0_t).
                bind_e (if first
                        then Inr (tmap (\<lambda>v. Fin 0) x0_t, tmap (\<lambda>v. Fin 0) x0_t)
                        else stoch_coeffs eta a_t a_next) (\<lambda>(c1, c2).
                  let (z, g1) = randn_like T g x
                  in bind_e (next_state a_next x0_t c1 z c2 et_hat) (\<lambda>xt_next.
                       Inr (xs @ [xt_next], x0_preds @ [x0_t], g1))))))))"

fun da_loop ::
  "'g torch_rng \<Rightarrow> (fl list \<Rightarrow> int list \<Rightarrow> error + tensor) \<Rightarrow> (tensor \<Rightarrow> int list \<Rightarrow> tensor) \<Rightarrow>
   fl \<Rightarrow> fl \<Rightarrow> fl list \<Rightarrow> tensor \<Rightarrow> tensor \<Rightarrow> bool \<Rightarrow> (int \<times> int) list \<Rightarrow>
   tensor list \<times> tensor list \<times> 'g \<Rightarrow> error + tensor list \<times> tensor list \<times> 'g" where
  "da_loop T compute_alpha model eta eta2 b y x first [] st = Inr st"
| "da_loop T compute_alpha model eta eta2 b y x first (ij # rest) st =
     bind_e (da_iteration T compute_alpha model eta eta2 b y x first ij st)
       (da_loop T compute_alpha model eta eta2 b y x False rest)"

definition DA_generalized_steps ::
  "'g torch_rng \<Rightarrow> 'g \<Rightarrow> (fl list \<Rightarrow> int list \<Rightarrow> error + tensor) \<Rightarrow> (tensor \<Rightarrow> int list \<Rightarrow> tensor) \<Rightarrow>
   fl \<Rightarrow> tensor \<Rightarrow> tensor \<Rightarrow> int list \<Rightarrow> fl list \<Rightarrow> fl \<Rightarrow>
   error + tensor list \<times> tensor list \<times> 'g" where
  "DA_generalized_steps T g compute_alpha model eta y x seq b eta2 =
     (if shape x = [] then Inl IndexError
      else
        let seq_next = (- 1) # butlast seq
        in da_loop T compute_alpha model eta eta2 b y x True (zip (rev seq) (rev seq_next)) ([x], [], g))"

definition demo_alpha :: "real \<Rightarrow> tensor" where
  "demo_alpha a = \<lparr>shape = [1, 1, 1, 1], vals = [Fin a]\<rparr>"

section \<open>sample.py: trajectories and a concrete run\<close>

text \<open>The trajectory histories \<open>xs\<close> and \<open>x0_preds\<close> that a sampler returns (or the error it
  raises), without the state in which it leaves the random generator.\<close>

definition traj :: "error + tensor list \<times> tensor list \<times> 'g \<Rightarrow> error + tensor list \<times> tensor list" where
  "traj r = map_sum id (\<lambda>st. (fst st, fst (snd st))) r"

text \<open>
  Modelled from the spec: \<open>compute_alpha\<close> and \<open>compute_alpha2\<close>, which sample.py imports
  from a module that is not among the sources. Section 4.3 of the specification: the
  cumulative alpha at a step is the exact cumulative product of \<open>1 - beta\<close> up to and
  including that step, and the sentinel step \<open>-1\<close> has \<open>alpha = 1\<close>; the result has one
  entry per sample, of shape \<open>[B, 1, 1, 1]\<close>. It is used for concrete runs only: the
  theorems on the samplers hold for every function in its place.
\<close>

definition compute_alpha_spec :: "fl list \<Rightarrow> int list \<Rightarrow> error + tensor" where
  "compute_alpha_spec b t =
     (if list_all (\<lambda>i. - 1 \<le> i \<and> i < int (length b)) t
      then Inr \<lparr>shape = [length t, 1, 1, 1],
                vals = map (\<lambda>i. (Fin 1 # cumprod (map (fl_sub (Fin 1)) b)) ! nat (i + 1)) t\<rparr>
      else Inl IndexError)"

definition demo_image :: tensor where
  "demo_image = full [1, 1, 1, 2] (Fin 0)"

section \<open>sample.py: a run on a decreasing step sequence\<close>

definition nan_image :: tensor where
  "nan_image = full [1, 1, 1, 2] NaN"

definition demo_coeff :: "fl \<Rightarrow> tensor" where
  "demo_coeff v = \<lparr>shape = [1, 1, 1, 1], vals = [v]\<rparr>"

definition demo_two_betas :: "fl list" where
  "demo_two_betas = [Fin (1 / 2), Fin (1 / 2)]"

section \<open>noise.py: the history buffer\<close>

lemma last_n_append_one:
  "length h \<le> 100 \<Longrightarrow> (if length h \<ge> 100 then tl h else h) @ [n] = last_n 100 (h @ [n])"
  by (cases h) (auto simp: last_n_def)

lemma remember_history:
  "length (noise_history G) \<le> 100 \<Longrightarrow>
   noise_history (remember G n) = last_n 100 (noise_history G @ [n])"
  using last_n_append_one [of "noise_history G" n] by (simp add: remember_def Let_def)

lemma last_n_length: "length (last_n k xs) \<le> k"
  by (simp add: last_n_def)

lemma last_n_last_n_append:
  "last_n k (last_n k xs @ ys) = last_n k (xs @ ys)"
  by (cases "k \<le> length xs") (simp_all add: last_n_def add.commute)

lemma get_noise_gen_out:
  "get_noise T G g x nt sd = Inr r \<Longrightarrow> gen_out r = remember G (noise_out r)"
  by (auto simp: get_noise_def bind_e_def split: sum.splits prod.splits)

lemma run_calls_history:
  "length (noise_history G) \<le> 100 \<Longrightarrow> run_calls T G cs = (G', ns) \<Longrightarrow>
   noise_history G' = last_n 100 (noise_history G @ ns)"
proof (induction cs arbitrary: G G' ns)
  case Nil
  then show ?case by (simp add: last_n_def)
next
  case (Cons c cs)
  obtain g x nt sd where c: "c = (g, x, nt, sd)" by (cases c) auto
  show ?case
  proof (cases "get_noise T G g x nt sd")
    case (Inl e)
    have "run_calls T G (c # cs) = run_calls T G cs" unfolding c by (simp add: Inl)
    with Cons.prems(2) have "run_calls T G cs = (G', ns)" by simp
    from Cons.IH [OF Cons.prems(1) this] show ?thesis .
  next
    case (Inr r)
    obtain G1 ns1 where rc: "run_calls T (gen_out r) cs = (G1, ns1)" by (cases "run_calls T (gen_out r) cs") auto
    have go: "gen_out r = remember G (noise_out r)" using Inr by (rule get_noise_gen_out)
    have h1: "noise_history (gen_out r) = last_n 100 (noise_history G @ [noise_out r])"
      using Cons.prems(1) go by (simp add: remember_history)
    have len: "length (noise_history (gen_out r)) \<le> 100" unfolding h1 by (rule last_n_length)
    have "noise_history G1 = last_n 100 (noise_history (gen_out r) @ ns1)"
      using Cons.IH [OF len rc] .
    also have "\<dots> = last_n 100 (noise_history G @ [noise_out r] @ ns1)"
      unfolding h1 using last_n_last_n_append [of 100 "noise_history G @ [noise_out r]" ns1] by simp
    finally have fin: "noise_history G1 = last_n 100 (noise_history G @ [noise_out r] @ ns1)" .
    have "run_calls T G (c # cs) = (G1, noise_out r # ns1)"
      unfolding c by (simp add: Inr rc)
    with Cons.prems(2) have "G' = G1" "ns = noise_out r # ns1" by simp_all
    with fin show ?thesis by simp
  qed
qed

text \<open>
  Claim C3. On one instance whose history holds at most 100 tensors (a new instance holds
  none), any sequence of \<open>get_noise\<close> calls leaves at most 100 tensors in the history: the
  last 100 of the old entries followed by the tensors generated, in call order, so the
  oldest entry is the one evicted. After 150 generated tensors on a new instance the
  history is the last 100 of them.
\<close>

theorem noise_history_bounded_fifo:
  "length (noise_history G) \<le> 100 \<Longrightarrow> run_calls T G cs = (G', ns) \<Longrightarrow>
   length (noise_history G') \<le> 100 \<and>
   noise_history G' = last_n 100 (noise_history G @ ns) \<and>
   (noise_history G = [] \<and> length ns = 150 \<longrightarrow> noise_history G' = drop 50 ns)"
proof -
  assume a: "length (noise_history G) \<le> 100" "run_calls T G cs = (G', ns)"
  have h: "noise_history G' = last_n 100 (noise_history G @ ns)"
    using a by (rule run_calls_history)
  have "length (noise_history G') \<le> 100" unfolding h by (rule last_n_length)
  moreover have "noise_history G = [] \<and> length ns = 150 \<longrightarrow> noise_history G' = drop 50 ns"
    unfolding h by (simp add: last_n_def)
  ultimately show ?thesis using h by simp
qed

lemma gaussian_call_ok:
  "get_noise T G g x ''gaussian'' None =
     Inr \<lparr>noise_out = fst (randn_like T g x), gen_out = remember G (fst (randn_like T g x)),
          rng_out = snd (randn_like T g x), printed = []\<rparr>"
  by (simp add: get_noise_def pick_noise_def reseed_def bind_e_def split: prod.splits)

lemma gaussian_calls_length:
  "length (snd (run_calls T G (map (\<lambda>k. (f k, x, ''gaussian'', None)) ks))) = length ks"
proof (induction ks arbitrary: G)
  case Nil
  show ?case by simp
next
  case (Cons k ks)
  show ?case
    using Cons.IH [of "remember G (fst (randn_like T (f k) x))"]
    by (auto simp: gaussian_call_ok split: prod.splits)
qed

theorem noise_history_bounded_fifo_witness:
  "length (noise_history (fst (run_calls demo_rng new_generator demo_calls))) \<le> 100 \<and>
   noise_history (fst (run_calls demo_rng new_generator demo_calls))
     = drop 50 (snd (run_calls demo_rng new_generator demo_calls)) \<and>
   length (snd (run_calls demo_rng new_generator demo_calls)) = 150"
proof -
  have len: "length (snd (run_calls demo_rng new_generator demo_calls)) = 150"
    unfolding demo_calls_def using gaussian_calls_length [of demo_rng new_generator "\<lambda>k. k" demo_x "[0..<150]"]
    by simp
  have g0: "length (noise_history new_generator) \<le> 100" "noise_history new_generator = []"
    by (simp_all add: new_generator_def)
  have rc: "run_calls demo_rng new_generator demo_calls =
      (fst (run_calls demo_rng new_generator demo_calls), snd (run_calls demo_rng new_generator demo_calls))"
    by simp
  from noise_history_bounded_fifo [OF g0(1) rc] len g0(2) show ?thesis
    by (simp add: last_n_def)
qed

section \<open>noise.py: the adaptive scale and the fallback\<close>

lemma last_n_nonempty: "xs \<noteq> [] \<Longrightarrow> 0 < k \<Longrightarrow> last_n k xs \<noteq> []"
  by (cases xs) (auto simp: last_n_def)

lemma stack_uniform:
  "ts \<noteq> [] \<Longrightarrow> uniform_shapes ts \<Longrightarrow>
   stack ts = Inr \<lparr>shape = length ts # shape (hd ts), vals = concat (map vals ts)\<rparr>"
  by (cases ts) (simp_all add: stack_def uniform_shapes_def)

lemma stack_not_uniform:
  "\<not> uniform_shapes ts \<Longrightarrow> stack ts = Inl RuntimeError"
  by (cases ts) (simp_all add: stack_def uniform_shapes_def)

lemma calculate_adaptive_std_nonempty:
  assumes "noise_history G \<noteq> []" and "uniform_shapes (last_n 100 (noise_history G))"
  shows "calculate_adaptive_std G x =
           Inr (clamp (fl_mul (std x) (Fin (adaptation_rate G))) (min_std G) (max_std G))"
proof -
  have "last_n 100 (noise_history G) \<noteq> []" using assms(1) by (simp add: last_n_nonempty)
  from stack_uniform [OF this assms(2)] assms(1) show ?thesis
    by (simp add: calculate_adaptive_std_def bind_e_def Let_def)
qed

lemma calculate_adaptive_std_empty:
  "noise_history G = [] \<Longrightarrow> calculate_adaptive_std G x = Inr (Fin 1)"
  by (simp add: calculate_adaptive_std_def)

lemma calculate_adaptive_std_mixed:
  "noise_history G \<noteq> [] \<Longrightarrow> \<not> uniform_shapes (last_n 100 (noise_history G)) \<Longrightarrow>
   calculate_adaptive_std G x = Inl RuntimeError"
  by (simp add: calculate_adaptive_std_def bind_e_def stack_not_uniform)

lemma tmap_mul_one_randn: "tmap (\<lambda>v. fl_mul v (Fin 1)) (fst (randn_like T g x)) = fst (randn_like T g x)"
  by (simp add: tmap_def randn_like_def)

lemma get_noise_adaptive:
  assumes "reseed T g0 seed = Inr g" and "calculate_adaptive_std G x = Inr sd"
  shows "get_noise T G g0 x ''adaptive_gaussian'' seed =
     Inr \<lparr>noise_out = tmap (\<lambda>v. fl_mul v sd) (fst (randn_like T g x)),
          gen_out = remember G (tmap (\<lambda>v. fl_mul v sd) (fst (randn_like T g x))),
          rng_out = snd (randn_like T g x), printed = []\<rparr>"
  using assms by (simp add: get_noise_def pick_noise_def bind_e_def split: prod.splits)

text \<open>
  Claim C2, amended. With noise type \<open>adaptive_gaussian\<close> and a seed that is absent or
  accepted, \<open>get_noise\<close> returns the unit Gaussian draw itself when the history is empty
  (scale exactly 1), and the draw scaled by
  \<open>clamp (std x * adaptation_rate, min_std, max_std)\<close> when the history is not empty and
  its last 100 tensors have one shape. The history's own standard deviation is computed
  and not used.
\<close>

theorem adaptive_gaussian_scale:
  assumes "reseed T g0 seed = Inr g"
  shows "(noise_history G = [] \<longrightarrow>
            map_sum id noise_out (get_noise T G g0 x ''adaptive_gaussian'' seed)
              = Inr (fst (randn_like T g x))) \<and>
         (noise_history G \<noteq> [] \<and> uniform_shapes (last_n 100 (noise_history G)) \<longrightarrow>
            map_sum id noise_out (get_noise T G g0 x ''adaptive_gaussian'' seed)
              = Inr (tmap (\<lambda>v. fl_mul v (clamp (fl_mul (std x) (Fin (adaptation_rate G)))
                                             (min_std G) (max_std G)))
                       (fst (randn_like T g x))))"
proof (intro conjI impI)
  assume "noise_history G = []"
  then have "calculate_adaptive_std G x = Inr (Fin 1)" by (rule calculate_adaptive_std_empty)
  from get_noise_adaptive [OF assms this] show
    "map_sum id noise_out (get_noise T G g0 x ''adaptive_gaussian'' seed) = Inr (fst (randn_like T g x))"
    by (simp add: tmap_mul_one_randn)
next
  assume a: "noise_history G \<noteq> [] \<and> uniform_shapes (last_n 100 (noise_history G))"
  then have "calculate_adaptive_std G x =
           Inr (clamp (fl_mul (std x) (Fin (adaptation_rate G))) (min_std G) (max_std G))"
    by (simp add: calculate_adaptive_std_nonempty)
  from get_noise_adaptive [OF assms this] show
    "map_sum id noise_out (get_noise T G g0 x ''adaptive_gaussian'' seed)
              = Inr (tmap (\<lambda>v. fl_mul v (clamp (fl_mul (std x) (Fin (adaptation_rate G)))
                                             (min_std G) (max_std G)))
                       (fst (randn_like T g x)))"
    by simp
qed

lemma std_demo_signal: "std demo_signal = Fin 1"
  by (simp add: std_def demo_signal_def std_reals_def)

lemma upt_2: "[0..<2] = [0, Suc 0]" by (simp add: upt_rec numeral_2_eq_2)

lemma upt_3: "[0..<3] = [0, Suc 0, 2]" by (simp add: upt_rec numeral_3_eq_3)

lemma run_mixed:
  "run_calls demo_rng new_generator demo_mixed_calls =
    (new_generator\<lparr>noise_history :=
       [\<lparr>shape = [2], vals = [Fin 0, Fin 1]\<rparr>, \<lparr>shape = [3], vals = [Fin 0, Fin 1, Fin 2]\<rparr>]\<rparr>,
     [\<lparr>shape = [2], vals = [Fin 0, Fin 1]\<rparr>, \<lparr>shape = [3], vals = [Fin 0, Fin 1, Fin 2]\<rparr>])"
  by (simp add: demo_mixed_calls_def gaussian_call_ok randn_like_def demo_rng_def numel_def
      remember_def new_generator_def upt_2 upt_3)

lemma scale_demo: "clamp (fl_mul (std demo_signal) (Fin (1 / 100))) (1 / 100) 2 = Fin (1 / 100)"
  by (simp add: std_demo_signal clamp_def t_min2_def t_max2_def)

lemma calc_demo:
  assumes "H \<noteq> []" and "uniform_shapes (last_n 100 H)"
  shows "calculate_adaptive_std (new_generator\<lparr>noise_history := H\<rparr>) demo_signal = Inr (Fin (1 / 100))"
proof -
  have "calculate_adaptive_std (new_generator\<lparr>noise_history := H\<rparr>) demo_signal =
     Inr (clamp (fl_mul (std demo_signal) (Fin (adaptation_rate (new_generator\<lparr>noise_history := H\<rparr>))))
            (min_std (new_generator\<lparr>noise_history := H\<rparr>)) (max_std (new_generator\<lparr>noise_history := H\<rparr>)))"
    using assms by (intro calculate_adaptive_std_nonempty) simp_all
  then show ?thesis by (simp add: new_generator_def scale_demo)
qed

text \<open>
  Claim C2, as stated, fails: the scale does not use the standard deviation of the
  history. Two histories whose stacked standard deviations are 0 and \<open>sqrt 2\<close> give the
  same scale for the same input.
\<close>

theorem adaptive_gaussian_scale_counterexample:
  "map_sum id std (stack (last_n 100 demo_hist_a)) = Inr (Fin 0) \<and>
   map_sum id std (stack (last_n 100 demo_hist_b)) = Inr (Fin (sqrt 2)) \<and>
   calculate_adaptive_std (new_generator\<lparr>noise_history := demo_hist_a\<rparr>) demo_signal = Inr (Fin (1 / 100)) \<and>
   calculate_adaptive_std (new_generator\<lparr>noise_history := demo_hist_b\<rparr>) demo_signal = Inr (Fin (1 / 100))"
proof (intro conjI)
  show "map_sum id std (stack (last_n 100 demo_hist_a)) = Inr (Fin 0)"
    by (simp add: demo_hist_a_def last_n_def stack_def std_def std_reals_def)
  show "map_sum id std (stack (last_n 100 demo_hist_b)) = Inr (Fin (sqrt 2))"
    by (simp add: demo_hist_b_def last_n_def stack_def std_def std_reals_def)
  show "calculate_adaptive_std (new_generator\<lparr>noise_history := demo_hist_a\<rparr>) demo_signal = Inr (Fin (1 / 100))"
    by (rule calc_demo) (simp_all add: demo_hist_a_def last_n_def uniform_shapes_def)
  show "calculate_adaptive_std (new_generator\<lparr>noise_history := demo_hist_b\<rparr>) demo_signal = Inr (Fin (1 / 100))"
    by (rule calc_demo) (simp_all add: demo_hist_b_def last_n_def uniform_shapes_def)
qed

text \<open>
  Claim C10, as stated, fails on a history a generator can reach: after two
  \<open>gaussian\<close> calls on inputs of shapes [2] and [3] the history cannot be stacked and
  \<open>calculate_adaptive_std\<close> raises, while on a one-entry history it returns 0.01 for the
  same input.
\<close>

theorem adaptive_std_history_counterexample:
  "noise_history (fst (run_calls demo_rng new_generator demo_mixed_calls)) \<noteq> [] \<and>
   calculate_adaptive_std (fst (run_calls demo_rng new_generator demo_mixed_calls)) demo_signal
     = Inl RuntimeError \<and>
   calculate_adaptive_std (new_generator\<lparr>noise_history := demo_hist_a\<rparr>) demo_signal
     = Inr (Fin (1 / 100))"
proof (intro conjI)
  show "noise_history (fst (run_calls demo_rng new_generator demo_mixed_calls)) \<noteq> []"
    unfolding run_mixed by simp
  show "calculate_adaptive_std (fst (run_calls demo_rng new_generator demo_mixed_calls)) demo_signal
     = Inl RuntimeError"
    unfolding run_mixed
    by (rule calculate_adaptive_std_mixed) (simp_all add: last_n_def uniform_shapes_def)
  show "calculate_adaptive_std (new_generator\<lparr>noise_history := demo_hist_a\<rparr>) demo_signal = Inr (Fin (1 / 100))"
    by (rule calc_demo) (simp_all add: demo_hist_a_def last_n_def uniform_shapes_def)
qed

text \<open>
  Claim C10, amended. For two non-empty histories, each with one shape among its last
  100 tensors, and the same input, \<open>calculate_adaptive_std\<close> returns the same value, and
  two \<open>adaptive_gaussian\<close> calls of \<open>get_noise\<close> from the same generator state and seed
  return the same noise (or raise the same error).
\<close>

theorem adaptive_std_history_independent:
  assumes "noise_history G \<noteq> []" and "uniform_shapes (last_n 100 (noise_history G))"
    and "H \<noteq> []" and "uniform_shapes (last_n 100 H)"
  shows "calculate_adaptive_std (G\<lparr>noise_history := H\<rparr>) x = calculate_adaptive_std G x \<and>
         map_sum id noise_out (get_noise T (G\<lparr>noise_history := H\<rparr>) g0 x ''adaptive_gaussian'' seed)
           = map_sum id noise_out (get_noise T G g0 x ''adaptive_gaussian'' seed)"
proof -
  let ?sd = "clamp (fl_mul (std x) (Fin (adaptation_rate G))) (min_std G) (max_std G)"
  have c1: "calculate_adaptive_std G x = Inr ?sd"
    using assms(1,2) by (rule calculate_adaptive_std_nonempty)
  have c2: "calculate_adaptive_std (G\<lparr>noise_history := H\<rparr>) x = Inr ?sd"
    using calculate_adaptive_std_nonempty [of "G\<lparr>noise_history := H\<rparr>" x] assms(3,4) by simp
  have "map_sum id noise_out (get_noise T (G\<lparr>noise_history := H\<rparr>) g0 x ''adaptive_gaussian'' seed)
           = map_sum id noise_out (get_noise T G g0 x ''adaptive_gaussian'' seed)"
  proof (cases "reseed T g0 seed")
    case (Inl e)
    then show ?thesis by (simp add: get_noise_def bind_e_def)
  next
    case (Inr g)
    show ?thesis
      by (simp add: get_noise_adaptive [OF Inr c1] get_noise_adaptive [OF Inr c2])
  qed
  with c1 c2 show ?thesis by simp
qed

theorem adaptive_std_history_independent_witness:
  "calculate_adaptive_std (new_generator\<lparr>noise_history := demo_hist_b\<rparr>) demo_signal
     = calculate_adaptive_std (new_generator\<lparr>noise_history := demo_hist_a\<rparr>) demo_signal \<and>
   map_sum id noise_out
     (get_noise demo_rng (new_generator\<lparr>noise_history := demo_hist_b\<rparr>) 0 demo_signal ''adaptive_gaussian'' None)
     = map_sum id noise_out
     (get_noise demo_rng (new_generator\<lparr>noise_history := demo_hist_a\<rparr>) 0 demo_signal ''adaptive_gaussian'' None)"
proof -
  have a: "noise_history (new_generator\<lparr>noise_history := demo_hist_a\<rparr>) \<noteq> []"
    "uniform_shapes (last_n 100 (noise_history (new_generator\<lparr>noise_history := demo_hist_a\<rparr>)))"
    by (simp_all add: demo_hist_a_def last_n_def uniform_shapes_def)
  have b: "demo_hist_b \<noteq> []" "uniform_shapes (last_n 100 demo_hist_b)"
    by (simp_all add: demo_hist_b_def last_n_def uniform_shapes_def)
  from adaptive_std_history_independent [OF a b, of demo_signal demo_rng 0 None]
  show ?thesis by simp
qed

theorem adaptive_gaussian_scale_witness:
  "reseed demo_rng 0 None = Inr 0 \<and>
   map_sum id noise_out (get_noise demo_rng new_generator 0 demo_signal ''adaptive_gaussian'' None)
     = Inr (fst (randn_like demo_rng 0 demo_signal)) \<and>
   map_sum id noise_out
     (get_noise demo_rng (new_generator\<lparr>noise_history := demo_hist_a\<rparr>) 0 demo_signal ''adaptive_gaussian'' None)
     = Inr (tmap (\<lambda>v. fl_mul v (Fin (1 / 100))) (fst (randn_like demo_rng 0 demo_signal)))"
proof -
  have r: "reseed demo_rng 0 None = Inr (0::nat)" by (simp add: reseed_def)
  have e: "noise_history new_generator = []" by (simp add: new_generator_def)
  have a: "noise_history (new_generator\<lparr>noise_history := demo_hist_a\<rparr>) \<noteq> []"
    "uniform_shapes (last_n 100 (noise_history (new_generator\<lparr>noise_history := demo_hist_a\<rparr>)))"
    by (simp_all add: demo_hist_a_def last_n_def uniform_shapes_def)
  have s: "clamp (fl_mul (std demo_signal) (Fin (adaptation_rate (new_generator\<lparr>noise_history := demo_hist_a\<rparr>))))
            (min_std (new_generator\<lparr>noise_history := demo_hist_a\<rparr>))
            (max_std (new_generator\<lparr>noise_history := demo_hist_a\<rparr>)) = Fin (1 / 100)"
    by (simp add: new_generator_def scale_demo)
  from adaptive_gaussian_scale [OF r, of new_generator demo_signal] e
  have 1: "map_sum id noise_out (get_noise demo_rng new_generator 0 demo_signal ''adaptive_gaussian'' None)
     = Inr (fst (randn_like demo_rng 0 demo_signal))" by blast
  from adaptive_gaussian_scale [OF r, of "new_generator\<lparr>noise_history := demo_hist_a\<rparr>" demo_signal] a
  have 2: "map_sum id noise_out
     (get_noise demo_rng (new_generator\<lparr>noise_history := demo_hist_a\<rparr>) 0 demo_signal ''adaptive_gaussian'' None)
     = Inr (tmap (\<lambda>v. fl_mul v (Fin (1 / 100))) (fst (randn_like demo_rng 0 demo_signal)))"
    unfolding s by blast
  from r 1 2 show ?thesis by blast
qed

lemma remember_last: "last (noise_history (remember G n)) = n"
  by (simp add: remember_def Let_def)

text \<open>
  Claim C9. For a noise type that is none of the six supported ones, and a seed that is
  absent or accepted by the seeding calls, \<open>get_noise\<close> does not raise: it prints the
  warning, returns the standard Gaussian draw of the shape of \<open>x\<close> (the noise the type
  \<open>gaussian\<close> returns), and appends it to the history as every call does.
\<close>

theorem unknown_noise_type_falls_back:
  assumes "noise_type \<notin> {''adaptive_gaussian'', ''gaussian'', ''uniform'', ''laplace'',
                           ''mixture'', ''perlin''}"
    and "reseed T g0 seed = Inr g"
  shows "get_noise T G g0 x noise_type seed =
           Inr \<lparr>noise_out = fst (randn_like T g x),
                gen_out = remember G (fst (randn_like T g x)),
                rng_out = snd (randn_like T g x),
                printed = [''Unknown noise type: '' @ noise_type @ ''. Using default Gaussian noise.'']\<rparr> \<and>
         shape (fst (randn_like T g x)) = shape x \<and>
         last (noise_history (remember G (fst (randn_like T g x)))) = fst (randn_like T g x) \<and>
         map_sum id noise_out (get_noise T G g0 x ''gaussian'' seed) = Inr (fst (randn_like T g x))"
proof -
  from assms(1) have ne: "noise_type \<noteq> ''adaptive_gaussian''" "noise_type \<noteq> ''gaussian''"
    "noise_type \<noteq> ''uniform''" "noise_type \<noteq> ''laplace''" "noise_type \<noteq> ''mixture''"
    "noise_type \<noteq> ''perlin''" by simp_all
  have p: "pick_noise T G g x noise_type =
      Inr (fst (randn_like T g x), snd (randn_like T g x),
           [''Unknown noise type: '' @ noise_type @ ''. Using default Gaussian noise.''])"
    unfolding pick_noise_def using ne by (simp split: prod.splits)
  have 1: "get_noise T G g0 x noise_type seed =
           Inr \<lparr>noise_out = fst (randn_like T g x),
                gen_out = remember G (fst (randn_like T g x)),
                rng_out = snd (randn_like T g x),
                printed = [''Unknown noise type: '' @ noise_type @ ''. Using default Gaussian noise.'']\<rparr>"
    by (simp add: get_noise_def bind_e_def assms(2) p)
  have 2: "shape (fst (randn_like T g x)) = shape x" by (simp add: randn_like_def)
  have pg: "pick_noise T G g x ''gaussian'' = Inr (fst (randn_like T g x), snd (randn_like T g x), [])"
    unfolding pick_noise_def by (simp split: prod.splits)
  have 3: "map_sum id noise_out (get_noise T G g0 x ''gaussian'' seed) = Inr (fst (randn_like T g x))"
    by (simp add: get_noise_def bind_e_def assms(2) pg)
  from 1 2 3 remember_last [of G "fst (randn_like T g x)"] show ?thesis by simp
qed

theorem unknown_noise_type_falls_back_witness:
  "''pink'' \<notin> {''adaptive_gaussian'', ''gaussian'', ''uniform'', ''laplace'', ''mixture'', ''perlin''} \<and>
   reseed demo_rng 0 (Some 7) = Inr 7 \<and>
   get_noise demo_rng new_generator 0 demo_signal ''pink'' (Some 7) =
     Inr \<lparr>noise_out = \<lparr>shape = [3], vals = [Fin 7, Fin 8, Fin 9]\<rparr>,
          gen_out = new_generator\<lparr>noise_history := [\<lparr>shape = [3], vals = [Fin 7, Fin 8, Fin 9]\<rparr>]\<rparr>,
          rng_out = 10,
          printed = [''Unknown noise type: pink. Using default Gaussian noise.'']\<rparr>"
proof -
  have t: "''pink'' \<notin> {''adaptive_gaussian'', ''gaussian'', ''uniform'', ''laplace'', ''mixture'', ''perlin''}"
    by simp
  have r: "reseed demo_rng 0 (Some 7) = Inr (7::nat)" by (simp add: reseed_def demo_rng_def)
  have n: "randn_like demo_rng 7 demo_signal = (\<lparr>shape = [3], vals = [Fin 7, Fin 8, Fin 9]\<rparr>, 10)"
    by (simp add: randn_like_def demo_rng_def demo_signal_def numel_def upt_3)
  have m: "remember new_generator \<lparr>shape = [3], vals = [Fin 7, Fin 8, Fin 9]\<rparr>
      = new_generator\<lparr>noise_history := [\<lparr>shape = [3], vals = [Fin 7, Fin 8, Fin 9]\<rparr>]\<rparr>"
    by (simp add: remember_def new_generator_def)
  from unknown_noise_type_falls_back [OF t r, of new_generator demo_signal] t r show ?thesis
    by (simp add: n m)
qed

section \<open>anomaly_map.py: scale_values_between_zero_and_one\<close>

lemma t_min2_Fin: "t_min2 (Fin a) (Fin b) = Fin (min a b)"
  by (simp add: t_min2_def min_def)

lemma t_max2_Fin: "t_max2 (Fin a) (Fin b) = Fin (max a b)"
  by (simp add: t_max2_def max_def)

lemma foldl_t_min2_Fin: "foldl t_min2 (Fin a) (map Fin rs) = Fin (fold min rs a)"
  by (induction rs arbitrary: a) (simp_all add: t_min2_Fin min.commute)

lemma foldl_t_max2_Fin: "foldl t_max2 (Fin a) (map Fin rs) = Fin (fold max rs a)"
  by (induction rs arbitrary: a) (simp_all add: t_max2_Fin max.commute)

lemma finite_vals: "list_all is_Fin vs \<Longrightarrow> vs = map Fin (map real_of vs)"
  by (induction vs) auto

lemma list_min_Fin:
  assumes "vs \<noteq> []" and "list_all is_Fin vs"
  shows "(case vs of [] \<Rightarrow> Inl RuntimeError | v # r \<Rightarrow> Inr (foldl t_min2 v r))
           = Inr (Fin (Min (real_of ` set vs)))"
proof -
  obtain v r where vs: "vs = v # r" using assms(1) by (cases vs) auto
  obtain a where v: "v = Fin a" using assms(2) vs by (cases v) auto
  have r: "r = map Fin (map real_of r)" using assms(2) vs by (intro finite_vals) simp
  have "foldl t_min2 v r = Fin (fold min (map real_of r) a)"
    using foldl_t_min2_Fin [of a "map real_of r"] r v by simp
  also have "fold min (map real_of r) a = Min (set (a # map real_of r))"
    by (simp only: Min.set_eq_fold)
  finally show ?thesis using vs v by simp
qed

lemma list_max_Fin:
  assumes "vs \<noteq> []" and "list_all is_Fin vs"
  shows "(case vs of [] \<Rightarrow> Inl RuntimeError | v # r \<Rightarrow> Inr (foldl t_max2 v r))
           = Inr (Fin (Max (real_of ` set vs)))"
proof -
  obtain v r where vs: "vs = v # r" using assms(1) by (cases vs) auto
  obtain a where v: "v = Fin a" using assms(2) vs by (cases v) auto
  have r: "r = map Fin (map real_of r)" using assms(2) vs by (intro finite_vals) simp
  have "foldl t_max2 v r = Fin (fold max (map real_of r) a)"
    using foldl_t_max2_Fin [of a "map real_of r"] r v by simp
  also have "fold max (map real_of r) a = Max (set (a # map real_of r))"
    by (simp only: Max.set_eq_fold)
  finally show ?thesis using vs v by simp
qed

lemma tensor_min_finite:
  "vals t \<noteq> [] \<Longrightarrow> finite_tensor t \<Longrightarrow> tensor_min t = Inr (Fin (Min (real_of ` set (vals t))))"
  unfolding tensor_min_def finite_tensor_def by (rule list_min_Fin)

lemma tensor_max_finite:
  "vals t \<noteq> [] \<Longrightarrow> finite_tensor t \<Longrightarrow> tensor_max t = Inr (Fin (Max (real_of ` set (vals t))))"
  unfolding tensor_max_def finite_tensor_def by (rule list_max_Fin)

lemma map_e_ok:
  "(\<And>x. x \<in> set xs \<Longrightarrow> f x = Inr (h x)) \<Longrightarrow> map_e f xs = Inr (map h xs)"
  by (induction xs) (simp_all add: bind_e_def)

lemma stack_scalars:
  "ms \<noteq> [] \<Longrightarrow> stack (map scalar_tensor ms) = Inr \<lparr>shape = [length ms], vals = ms\<rparr>"
proof -
  assume ne: "ms \<noteq> []"
  have c: "concat (map vals (map scalar_tensor ms)) = ms"
    by (induction ms) (simp_all add: scalar_tensor_def)
  from ne obtain m r where "ms = m # r" by (cases ms) auto
  then have "list_all (\<lambda>u. shape u = shape (scalar_tensor m)) (map scalar_tensor r)"
    by (simp add: list_all_iff scalar_tensor_def)
  with \<open>ms = m # r\<close> c show ?thesis
    by (simp add: stack_def scalar_tensor_def)
qed

lemma Min_of_Mins:
  fixes f :: "'a \<Rightarrow> real set"
  assumes "finite A" "A \<noteq> {}" "\<And>t. t \<in> A \<Longrightarrow> finite (f t) \<and> f t \<noteq> {}"
  shows "Min ((\<lambda>t. Min (f t)) ` A) = Min (\<Union>t\<in>A. f t)"
proof (rule sym, rule Min_eqI)
  show "finite (\<Union>t\<in>A. f t)" using assms by auto
next
  fix y assume "y \<in> (\<Union>t\<in>A. f t)"
  then obtain t where t: "t \<in> A" "y \<in> f t" by auto
  have "Min ((\<lambda>t. Min (f t)) ` A) \<le> Min (f t)" using assms(1) t(1) by (intro Min_le) auto
  also have "Min (f t) \<le> y" using assms(3) [OF t(1)] t(2) by (intro Min_le) auto
  finally show "Min ((\<lambda>t. Min (f t)) ` A) \<le> y" .
next
  have "Min ((\<lambda>t. Min (f t)) ` A) \<in> (\<lambda>t. Min (f t)) ` A"
    using assms(1,2) by (intro Min_in) auto
  then obtain t where t: "t \<in> A" "Min ((\<lambda>t. Min (f t)) ` A) = Min (f t)" by auto
  have "Min (f t) \<in> f t" using assms(3) [OF t(1)] by (intro Min_in) auto
  with t show "Min ((\<lambda>t. Min (f t)) ` A) \<in> (\<Union>t\<in>A. f t)" by auto
qed

lemma Max_of_Maxs:
  fixes f :: "'a \<Rightarrow> real set"
  assumes "finite A" "A \<noteq> {}" "\<And>t. t \<in> A \<Longrightarrow> finite (f t) \<and> f t \<noteq> {}"
  shows "Max ((\<lambda>t. Max (f t)) ` A) = Max (\<Union>t\<in>A. f t)"
proof (rule sym, rule Max_eqI)
  show "finite (\<Union>t\<in>A. f t)" using assms by auto
next
  fix y assume "y \<in> (\<Union>t\<in>A. f t)"
  then obtain t where t: "t \<in> A" "y \<in> f t" by auto
  have "y \<le> Max (f t)" using assms(3) [OF t(1)] t(2) by (intro Max_ge) auto
  also have "Max (f t) \<le> Max ((\<lambda>t. Max (f t)) ` A)" using assms(1) t(1) by (intro Max_ge) auto
  finally show "y \<le> Max ((\<lambda>t. Max (f t)) ` A)" .
next
  have "Max ((\<lambda>t. Max (f t)) ` A) \<in> (\<lambda>t. Max (f t)) ` A"
    using assms(1,2) by (intro Max_in) auto
  then obtain t where t: "t \<in> A" "Max ((\<lambda>t. Max (f t)) ` A) = Max (f t)" by auto
  have "Max (f t) \<in> f t" using assms(3) [OF t(1)] by (intro Max_in) auto
  with t show "Max ((\<lambda>t. Max (f t)) ` A) \<in> (\<Union>t\<in>A. f t)" by auto
qed

lemma all_values_finite:
  "finite (all_values ts)"
  by (simp add: all_values_def)

lemma all_values_nonempty:
  "ts \<noteq> [] \<Longrightarrow> \<forall>t\<in>set ts. vals t \<noteq> [] \<and> finite_tensor t \<Longrightarrow> all_values ts \<noteq> {}"
  by (cases ts) (auto simp: all_values_def)

lemma calculate_min_max_finite:
  assumes "ts \<noteq> []" and "\<forall>t\<in>set ts. vals t \<noteq> [] \<and> finite_tensor t"
  shows "calculate_min_max_of_tensors ts = Inr (Fin (Min (all_values ts)), Fin (Max (all_values ts)))"
proof -
  let ?mn = "\<lambda>t. Fin (Min (real_of ` set (vals t)))"
  let ?mx = "\<lambda>t. Fin (Max (real_of ` set (vals t)))"
  have mins: "map_e tensor_min ts = Inr (map ?mn ts)"
    using assms(2) by (intro map_e_ok tensor_min_finite) auto
  have maxs: "map_e tensor_max ts = Inr (map ?mx ts)"
    using assms(2) by (intro map_e_ok tensor_max_finite) auto
  have s1: "stack (map scalar_tensor (map ?mn ts)) = Inr \<lparr>shape = [length (map ?mn ts)], vals = map ?mn ts\<rparr>"
    using assms(1) by (intro stack_scalars) simp
  have s2: "stack (map scalar_tensor (map ?mx ts)) = Inr \<lparr>shape = [length (map ?mx ts)], vals = map ?mx ts\<rparr>"
    using assms(1) by (intro stack_scalars) simp
  have fin: "\<And>t. t \<in> set ts \<Longrightarrow> finite (real_of ` set (vals t)) \<and> real_of ` set (vals t) \<noteq> {}"
    using assms(2) by auto
  have lo: "tensor_min \<lparr>shape = [length (map ?mn ts)], vals = map ?mn ts\<rparr> = Inr (Fin (Min (all_values ts)))"
  proof -
    have "tensor_min \<lparr>shape = [length (map ?mn ts)], vals = map ?mn ts\<rparr>
        = Inr (Fin (Min (real_of ` set (map ?mn ts))))"
      using assms(1) tensor_min_finite [of "\<lparr>shape = [length (map ?mn ts)], vals = map ?mn ts\<rparr>"]
      by (simp add: finite_tensor_def list_all_iff)
    moreover have "real_of ` set (map ?mn ts) = (\<lambda>t. Min (real_of ` set (vals t))) ` set ts"
      by (auto simp: image_iff)
    moreover have "Min ((\<lambda>t. Min (real_of ` set (vals t))) ` set ts) = Min (all_values ts)"
      unfolding all_values_def using assms(1) fin by (intro Min_of_Mins) auto
    ultimately show ?thesis by simp
  qed
  have hi: "tensor_max \<lparr>shape = [length (map ?mx ts)], vals = map ?mx ts\<rparr> = Inr (Fin (Max (all_values ts)))"
  proof -
    have "tensor_max \<lparr>shape = [length (map ?mx ts)], vals = map ?mx ts\<rparr>
        = Inr (Fin (Max (real_of ` set (map ?mx ts))))"
      using assms(1) tensor_max_finite [of "\<lparr>shape = [length (map ?mx ts)], vals = map ?mx ts\<rparr>"]
      by (simp add: finite_tensor_def list_all_iff)
    moreover have "real_of ` set (map ?mx ts) = (\<lambda>t. Max (real_of ` set (vals t))) ` set ts"
      by (auto simp: image_iff)
    moreover have "Max ((\<lambda>t. Max (real_of ` set (vals t))) ` set ts) = Max (all_values ts)"
      unfolding all_values_def using assms(1) fin by (intro Max_of_Maxs) auto
    ultimately show ?thesis by simp
  qed
  show ?thesis
    unfolding calculate_min_max_of_tensors_def
    by (simp only: bind_e_def mins maxs s1 s2 lo hi sum.case)
qed

lemma tmap_finite_cong:
  assumes "finite_tensor t" and "\<And>r. f (Fin r) = Fin (h r)"
  shows "tmap f t = tmap (\<lambda>v. Fin (h (real_of v))) t"
proof -
  have "map f (vals t) = map (\<lambda>v. Fin (h (real_of v))) (vals t)"
  proof (rule map_cong [OF refl])
    fix v assume "v \<in> set (vals t)"
    then have "is_Fin v" using assms(1) by (simp add: finite_tensor_def list_all_iff)
    then obtain r where "v = Fin r" by (cases v) auto
    then show "f v = Fin (h (real_of v))" using assms(2) by simp
  qed
  then show ?thesis by (simp add: tmap_def)
qed

lemma min_max_scaled_range:
  fixes r lo hi :: real
  assumes "lo \<le> r" and "r \<le> hi"
  shows "0 \<le> (r - lo) / (hi - lo + 1 / 10 ^ 8) \<and> (r - lo) / (hi - lo + 1 / 10 ^ 8) \<le> 1"
proof -
  have pos: "0 < hi - lo + 1 / 10 ^ 8" using assms by simp
  have "r - lo \<le> hi - lo + 1 / 10 ^ 8" using assms by simp
  with pos show ?thesis using assms(1) by (simp add: divide_le_eq_1)
qed

lemma scale_values_finite:
  assumes "ts \<noteq> []" and "\<forall>t\<in>set ts. vals t \<noteq> [] \<and> finite_tensor t"
  shows "scale_values_between_zero_and_one ts =
           Inr (map (tmap (\<lambda>v. Fin ((real_of v - Min (all_values ts)) /
                                     (Max (all_values ts) - Min (all_values ts) + 1 / 10 ^ 8)))) ts)"
proof -
  let ?lo = "Min (all_values ts)" and ?hi = "Max (all_values ts)"
  have fin: "finite (all_values ts)" by (rule all_values_finite)
  have ne: "all_values ts \<noteq> {}" using assms by (rule all_values_nonempty)
  have mm: "calculate_min_max_of_tensors ts = Inr (Fin ?lo, Fin ?hi)"
    using assms by (rule calculate_min_max_finite)
  have each: "map (tmap (\<lambda>v. fl_div (fl_sub v (Fin ?lo)) (fl_add (fl_sub (Fin ?hi) (Fin ?lo)) (Fin (1 / 10 ^ 8))))) ts
            = map (tmap (\<lambda>v. Fin ((real_of v - ?lo) / (?hi - ?lo + 1 / 10 ^ 8)))) ts"
  proof (rule map_cong [OF refl])
    fix t assume t: "t \<in> set ts"
    have lohi: "?lo \<le> ?hi" using fin ne by (meson Max_ge Min_in Min_le)
    then have nz: "?hi - ?lo + 1 / 10 ^ 8 \<noteq> 0" by simp
    show "tmap (\<lambda>v. fl_div (fl_sub v (Fin ?lo)) (fl_add (fl_sub (Fin ?hi) (Fin ?lo)) (Fin (1 / 10 ^ 8)))) t
        = tmap (\<lambda>v. Fin ((real_of v - ?lo) / (?hi - ?lo + 1 / 10 ^ 8))) t"
      using assms(2) t nz by (intro tmap_finite_cong) (simp_all add: fl_sub_def)
  qed
  show ?thesis
    unfolding scale_values_between_zero_and_one_def mm bind_e_def
    by (simp only: sum.case prod.case each)
qed

text \<open>
  Claim C6, amended. For a non-empty list of non-empty tensors with finite elements,
  \<open>scale_values_between_zero_and_one\<close> returns a list of the same length and shapes, each
  element \<open>v\<close> replaced by \<open>(v - lo) / (hi - lo + 1e-8)\<close>, where \<open>lo\<close> and \<open>hi\<close> are the
  minimum and the maximum over the whole list. Every output lies in \<open>[0, 1]\<close>; the global
  minimum is mapped to 0 and the global maximum to \<open>(hi - lo) / (hi - lo + 1e-8)\<close>, which
  is at most 1 and need not be 1.
\<close>

theorem scale_values_affine:
  assumes "ts \<noteq> []" and "\<forall>t\<in>set ts. vals t \<noteq> [] \<and> finite_tensor t"
  shows "scale_values_between_zero_and_one ts =
           Inr (map (tmap (\<lambda>v. Fin ((real_of v - Min (all_values ts)) /
                                     (Max (all_values ts) - Min (all_values ts) + 1 / 10 ^ 8)))) ts) \<and>
         (\<forall>r\<in>all_values ts.
            0 \<le> (r - Min (all_values ts)) / (Max (all_values ts) - Min (all_values ts) + 1 / 10 ^ 8) \<and>
            (r - Min (all_values ts)) / (Max (all_values ts) - Min (all_values ts) + 1 / 10 ^ 8) \<le> 1) \<and>
         Min (all_values ts) \<in> all_values ts \<and> Max (all_values ts) \<in> all_values ts \<and>
         (Min (all_values ts) - Min (all_values ts)) /
            (Max (all_values ts) - Min (all_values ts) + 1 / 10 ^ 8) = 0 \<and>
         (Max (all_values ts) - Min (all_values ts)) /
            (Max (all_values ts) - Min (all_values ts) + 1 / 10 ^ 8) \<le> 1"
proof -
  let ?lo = "Min (all_values ts)" and ?hi = "Max (all_values ts)"
  have fin: "finite (all_values ts)" by (rule all_values_finite)
  have ne: "all_values ts \<noteq> {}" using assms by (rule all_values_nonempty)
  have 1: "scale_values_between_zero_and_one ts =
           Inr (map (tmap (\<lambda>v. Fin ((real_of v - ?lo) / (?hi - ?lo + 1 / 10 ^ 8)))) ts)"
    using assms by (rule scale_values_finite)
  have 2: "\<forall>r\<in>all_values ts.
            0 \<le> (r - ?lo) / (?hi - ?lo + 1 / 10 ^ 8) \<and> (r - ?lo) / (?hi - ?lo + 1 / 10 ^ 8) \<le> 1"
  proof
    fix r assume "r \<in> all_values ts"
    then have "?lo \<le> r" "r \<le> ?hi" using fin by simp_all
    then show "0 \<le> (r - ?lo) / (?hi - ?lo + 1 / 10 ^ 8) \<and> (r - ?lo) / (?hi - ?lo + 1 / 10 ^ 8) \<le> 1"
      by (rule min_max_scaled_range)
  qed
  have 3: "?lo \<in> all_values ts" "?hi \<in> all_values ts" using fin ne by simp_all
  have 4: "(?hi - ?lo) / (?hi - ?lo + 1 / 10 ^ 8) \<le> 1" using 2 3(2) by blast
  from 1 2 3 4 show ?thesis by simp
qed

lemma all_values_demo_tiny: "all_values [demo_tiny] = {0, 1 / 10 ^ 8}"
  by (simp add: all_values_def demo_tiny_def)

text \<open>
  Claim C6, as stated, fails: the global maximum is not always mapped to 1. On the one tensor
  \<open>[0, 1e-8]\<close> the maximum \<open>1e-8\<close> is mapped to \<open>1/2\<close>, because of the \<open>1e-8\<close> added to the
  denominator.
\<close>

theorem scale_values_affine_counterexample:
  "scale_values_between_zero_and_one [demo_tiny] = Inr [\<lparr>shape = [2], vals = [Fin 0, Fin (1 / 2)]\<rparr>]"
proof -
  have "calculate_min_max_of_tensors [demo_tiny] = Inr (Fin 0, Fin (1 / 10 ^ 8))"
    using calculate_min_max_finite [of "[demo_tiny]"]
    by (simp add: all_values_demo_tiny) (simp add: demo_tiny_def finite_tensor_def)
  then show ?thesis
    by (simp add: scale_values_between_zero_and_one_def bind_e_def tmap_def demo_tiny_def fl_sub_def)
qed

theorem scale_values_affine_witness:
  "[demo_tiny] \<noteq> [] \<and> vals demo_tiny \<noteq> [] \<and> finite_tensor demo_tiny \<and>
   scale_values_between_zero_and_one [demo_tiny] =
     Inr (map (tmap (\<lambda>v. Fin ((real_of v - Min (all_values [demo_tiny])) /
                 (Max (all_values [demo_tiny]) - Min (all_values [demo_tiny]) + 1 / 10 ^ 8)))) [demo_tiny]) \<and>
   Min (all_values [demo_tiny]) = 0 \<and> Max (all_values [demo_tiny]) = 1 / 10 ^ 8"
proof -
  have h: "[demo_tiny] \<noteq> []" "\<forall>t\<in>set [demo_tiny]. vals t \<noteq> [] \<and> finite_tensor t"
    by (simp_all add: demo_tiny_def finite_tensor_def)
  have m: "Min (all_values [demo_tiny]) = 0" "Max (all_values [demo_tiny]) = 1 / 10 ^ 8"
    by (simp_all add: all_values_demo_tiny)
  have e: "scale_values_between_zero_and_one [demo_tiny] =
     Inr (map (tmap (\<lambda>v. Fin ((real_of v - Min (all_values [demo_tiny])) /
                 (Max (all_values [demo_tiny]) - Min (all_values [demo_tiny]) + 1 / 10 ^ 8)))) [demo_tiny])"
    using scale_values_affine [OF h] by (rule conjunct1)
  have h': "vals demo_tiny \<noteq> []" "finite_tensor demo_tiny"
    by (simp_all add: demo_tiny_def finite_tensor_def)
  from h(1) h' e m show ?thesis by blast
qed

section \<open>anomaly_map.py: fuse_heat_maps\<close>

lemma lookup_recon_only:
  "lookup recon_only_weights ''recon'' = Inr 1"
  "lookup recon_only_weights ''feature'' = Inr 0"
  "lookup recon_only_weights ''latent'' = Inr 0"
  by (simp_all add: lookup_def recon_only_weights_def)

lemma map_mul_one: "list_all is_Fin vs \<Longrightarrow> map (fl_mul (Fin 1)) vs = vs"
proof (induction vs)
  case Nil
  show ?case by simp
next
  case (Cons v vs)
  then obtain r where "v = Fin r" by (cases v) auto
  with Cons show ?case by simp
qed

lemma map2_add_zero:
  "length xs = length ys \<Longrightarrow> list_all is_Fin xs \<Longrightarrow> list_all is_Fin ys \<Longrightarrow>
   map2 fl_add xs (map (fl_mul (Fin 0)) ys) = xs"
proof (induction xs ys rule: list_induct2)
  case Nil
  show ?case by simp
next
  case (Cons x xs y ys)
  obtain a where a: "x = Fin a" using Cons.prems(1) by (cases x) auto
  obtain b where b: "y = Fin b" using Cons.prems(2) by (cases y) auto
  from Cons a b show ?case by simp
qed

lemma tbin_add_zero:
  assumes "shape a = shape b" and "length (vals a) = length (vals b)"
    and "finite_tensor a" and "finite_tensor b"
  shows "tbin fl_add a (smul (Fin 0) b) = Inr a"
proof -
  have "map2 fl_add (vals a) (map (fl_mul (Fin 0)) (vals b)) = vals a"
    using assms(2,3,4) unfolding finite_tensor_def by (rule map2_add_zero)
  then show ?thesis using assms(1) by (simp add: tbin_def smul_def tmap_def)
qed

lemma renormalize_finite:
  assumes "vals t \<noteq> []" and "finite_tensor t"
  shows "renormalize t =
           Inr (tmap (\<lambda>v. Fin ((real_of v - Min (real_of ` set (vals t))) /
                     (Max (real_of ` set (vals t)) - Min (real_of ` set (vals t)) + 1 / 10 ^ 8))) t)"
proof -
  let ?lo = "Min (real_of ` set (vals t))" and ?hi = "Max (real_of ` set (vals t))"
  have lo: "tensor_min t = Inr (Fin ?lo)" using assms by (rule tensor_min_finite)
  have hi: "tensor_max t = Inr (Fin ?hi)" using assms by (rule tensor_max_finite)
  have "?lo \<le> ?hi" using assms(1) by (meson Max_ge Min_in Min_le List.finite_set finite_imageI image_is_empty set_empty)
  then have nz: "?hi - ?lo + 1 / 10 ^ 8 \<noteq> 0" by simp
  have "tmap (\<lambda>v. fl_div (fl_sub v (Fin ?lo)) (fl_add (fl_sub (Fin ?hi) (Fin ?lo)) (Fin (1 / 10 ^ 8)))) t
      = tmap (\<lambda>v. Fin ((real_of v - ?lo) / (?hi - ?lo + 1 / 10 ^ 8))) t"
    using assms(2) nz by (intro tmap_finite_cong) (simp_all add: fl_sub_def)
  then show ?thesis
    unfolding renormalize_def lo hi bind_e_def by (simp only: sum.case)
qed

lemma tmap_Fin_finite: "finite_tensor (tmap (\<lambda>v. Fin (h v)) t)"
  by (simp add: finite_tensor_def tmap_def list_all_iff)

lemma smul_one_tmap: "smul (Fin 1) (tmap (\<lambda>v. Fin (h v)) t) = tmap (\<lambda>v. Fin (h v)) t"
  using map_mul_one [of "vals (tmap (\<lambda>v. Fin (h v)) t)"]
  by (simp add: smul_def tmap_def list_all_iff)

lemma tbin_add_zero_tmap:
  "shape a = shape b \<Longrightarrow> length (vals a) = length (vals b) \<Longrightarrow>
   tbin fl_add (tmap (\<lambda>v. Fin (h v)) a) (smul (Fin 0) (tmap (\<lambda>v. Fin (k v)) b))
     = Inr (tmap (\<lambda>v. Fin (h v)) a)"
  by (intro tbin_add_zero tmap_Fin_finite) (simp_all add: tmap_def)

lemma fuse_recon_only:
  assumes ls: "py_sum latent_maps = Inr ls"
    and sh: "shape feature = shape recon" "shape ls = shape recon"
    and len: "length (vals feature) = length (vals recon)" "length (vals ls) = length (vals recon)"
    and ne: "vals recon \<noteq> []"
    and fin: "finite_tensor recon" "finite_tensor feature" "finite_tensor ls"
  shows "fuse_heat_maps interp recon feature latent_maps (Some recon_only_weights) False False
     = renormalize (tmap (\<lambda>v. Fin ((real_of v - Min (all_values [recon, feature, ls])) /
          (Max (all_values [recon, feature, ls]) - Min (all_values [recon, feature, ls]) + 1 / 10 ^ 8)))
         recon)"
proof -
  let ?g = "\<lambda>v. Fin ((real_of v - Min (all_values [recon, feature, ls])) /
          (Max (all_values [recon, feature, ls]) - Min (all_values [recon, feature, ls]) + 1 / 10 ^ 8))"
  have all: "\<forall>t\<in>set [recon, feature, ls]. vals t \<noteq> [] \<and> finite_tensor t"
    using ne len fin by auto
  have sv: "scale_values_between_zero_and_one [recon, feature, ls] = Inr (map (tmap ?g) [recon, feature, ls])"
    using all by (intro scale_values_finite) simp_all
  show ?thesis
    unfolding fuse_heat_maps_def
    by (simp add: ls sv bind_e_def lookup_recon_only smul_one_tmap tbin_add_zero_tmap sh len nth_Cons'
        del: map_eq_conv)
qed

lemma renormalize_affine:
  assumes ne: "vals recon \<noteq> []" and fin: "finite_tensor recon" and G: "0 < G"
  shows "renormalize (tmap (\<lambda>v. Fin ((real_of v - lo) / G)) recon) =
     Inr (tmap (\<lambda>v. Fin (((real_of v - Min (all_values [recon])) / G) /
                 ((Max (all_values [recon]) - Min (all_values [recon])) / G + 1 / 10 ^ 8))) recon)"
proof -
  let ?R = "real_of ` set (vals recon)"
  let ?f = "\<lambda>x::real. (x - lo) / G"
  let ?t = "tmap (\<lambda>v. Fin ((real_of v - lo) / G)) recon"
  have R: "finite ?R" "?R \<noteq> {}" using ne by simp_all
  have av: "all_values [recon] = ?R" by (simp add: all_values_def)
  have mono: "mono ?f" using G by (intro monoI) (simp add: divide_right_mono)
  have V: "real_of ` set (vals ?t) = ?f ` ?R" by (simp add: tmap_def image_image)
  have mn: "Min (?f ` ?R) = ?f (Min ?R)" using mono_Min_commute [OF mono R] by simp
  have mx: "Max (?f ` ?R) = ?f (Max ?R)" using mono_Max_commute [OF mono R] by simp
  have "renormalize ?t =
      Inr (tmap (\<lambda>v. Fin ((real_of v - Min (real_of ` set (vals ?t))) /
                     (Max (real_of ` set (vals ?t)) - Min (real_of ` set (vals ?t)) + 1 / 10 ^ 8))) ?t)"
    using ne by (intro renormalize_finite tmap_Fin_finite) (simp add: tmap_def)
  also have "tmap (\<lambda>v. Fin ((real_of v - Min (real_of ` set (vals ?t))) /
                     (Max (real_of ` set (vals ?t)) - Min (real_of ` set (vals ?t)) + 1 / 10 ^ 8))) ?t
      = tmap (\<lambda>v. Fin (((real_of v - Min ?R) / G) / ((Max ?R - Min ?R) / G + 1 / 10 ^ 8))) recon"
    unfolding V mn mx by (simp add: tmap_def diff_divide_distrib)
  finally show ?thesis unfolding av .
qed

lemma spread_pos:
  assumes "ts \<noteq> []" and "\<forall>t\<in>set ts. vals t \<noteq> [] \<and> finite_tensor t"
  shows "0 < spread ts"
proof -
  have "finite (all_values ts)" by (rule all_values_finite)
  moreover have "all_values ts \<noteq> {}" using assms by (rule all_values_nonempty)
  ultimately have "Min (all_values ts) \<le> Max (all_values ts)" by (meson Max_ge Min_in Min_le)
  then show ?thesis by (simp add: spread_def)
qed

lemma fuse_recon_only_value:
  assumes ls: "py_sum latent_maps = Inr ls"
    and sh: "shape feature = shape recon" "shape ls = shape recon"
    and len: "length (vals feature) = length (vals recon)" "length (vals ls) = length (vals recon)"
    and ne: "vals recon \<noteq> []"
    and fin: "finite_tensor recon" "finite_tensor feature" "finite_tensor ls"
  shows "fuse_heat_maps interp recon feature latent_maps (Some recon_only_weights) False False =
     Inr (tmap (\<lambda>v. Fin (((real_of v - Min (all_values [recon])) / spread [recon, feature, ls]) /
                 ((Max (all_values [recon]) - Min (all_values [recon])) / spread [recon, feature, ls]
                   + 1 / 10 ^ 8))) recon)"
proof -
  have all: "\<forall>t\<in>set [recon, feature, ls]. vals t \<noteq> [] \<and> finite_tensor t"
    using ne len fin by auto
  have G: "0 < spread [recon, feature, ls]" using all by (intro spread_pos) simp_all
  have "fuse_heat_maps interp recon feature latent_maps (Some recon_only_weights) False False
     = renormalize (tmap (\<lambda>v. Fin ((real_of v - Min (all_values [recon, feature, ls])) /
          spread [recon, feature, ls])) recon)"
    unfolding spread_def using assms by (rule fuse_recon_only)
  also have "\<dots> = Inr (tmap (\<lambda>v. Fin (((real_of v - Min (all_values [recon])) / spread [recon, feature, ls]) /
                 ((Max (all_values [recon]) - Min (all_values [recon])) / spread [recon, feature, ls]
                   + 1 / 10 ^ 8))) recon)"
    using ne fin(1) G by (rule renormalize_affine)
  finally show ?thesis .
qed

lemma py_sum_demo: "py_sum demo_hist_a = Inr \<lparr>shape = [2], vals = [Fin 0, Fin 0]\<rparr>"
  by (simp add: py_sum_def demo_hist_a_def tmap_def)

lemma demo_fuse_values:
  "all_values [demo_recon] = {0, 1}"
  "all_values [demo_recon, demo_feature, \<lparr>shape = [2], vals = [Fin 0, Fin 0]\<rparr>] = {0, 1, 10 ^ 8}"
  by (auto simp: all_values_def demo_recon_def demo_feature_def)

lemma demo_fuse_spread:
  "spread [demo_recon, demo_feature, \<lparr>shape = [2], vals = [Fin 0, Fin 0]\<rparr>] = 10 ^ 8 + 1 / 10 ^ 8"
  "spread [demo_recon] = 1 + 1 / 10 ^ 8"
  by (simp_all add: spread_def demo_fuse_values)

lemma demo_fuse_hyps:
  "shape demo_feature = shape demo_recon"
  "shape \<lparr>shape = [2], vals = [Fin 0, Fin 0]\<rparr> = shape demo_recon"
  "length (vals demo_feature) = length (vals demo_recon)"
  "length (vals \<lparr>shape = [2], vals = [Fin 0, Fin 0]\<rparr>) = length (vals demo_recon)"
  "vals demo_recon \<noteq> []"
  "finite_tensor demo_recon" "finite_tensor demo_feature"
  "finite_tensor \<lparr>shape = [2], vals = [Fin 0, Fin 0]\<rparr>"
  by (simp_all add: demo_recon_def demo_feature_def finite_tensor_def)

text \<open>
  Claim C5, as stated, fails: the output depends on the feature map. With the
  reconstruction map \<open>[0, 1]\<close>, the feature map \<open>[0, 1e8]\<close> and one latent map \<open>[0, 0]\<close>
  the fused map is \<open>[0, 1 / (2 + 1e-16)]\<close>, about one half at the maximum, while the
  reconstruction map normalised alone is \<open>[0, 1 / (1 + 1e-8)]\<close>.
\<close>

theorem fuse_recon_only_counterexample:
  "fuse_heat_maps demo_interp demo_recon demo_feature demo_hist_a (Some recon_only_weights) False False
     = Inr \<lparr>shape = [2], vals = [Fin 0, Fin (1 / (2 + 1 / 10 ^ 16))]\<rparr> \<and>
   scale_values_between_zero_and_one [demo_recon]
     = Inr [\<lparr>shape = [2], vals = [Fin 0, Fin (1 / (1 + 1 / 10 ^ 8))]\<rparr>]"
proof
  have "fuse_heat_maps demo_interp demo_recon demo_feature demo_hist_a (Some recon_only_weights) False False
     = Inr (tmap (\<lambda>v. Fin (((real_of v - Min (all_values [demo_recon])) /
                   spread [demo_recon, demo_feature, \<lparr>shape = [2], vals = [Fin 0, Fin 0]\<rparr>]) /
                 ((Max (all_values [demo_recon]) - Min (all_values [demo_recon])) /
                   spread [demo_recon, demo_feature, \<lparr>shape = [2], vals = [Fin 0, Fin 0]\<rparr>]
                   + 1 / 10 ^ 8))) demo_recon)"
    using py_sum_demo demo_fuse_hyps by (rule fuse_recon_only_value)
  then show "fuse_heat_maps demo_interp demo_recon demo_feature demo_hist_a (Some recon_only_weights) False False
     = Inr \<lparr>shape = [2], vals = [Fin 0, Fin (1 / (2 + 1 / 10 ^ 16))]\<rparr>"
    unfolding demo_fuse_spread demo_fuse_values
    by (simp add: tmap_def demo_recon_def field_simps)
next
  have "scale_values_between_zero_and_one [demo_recon] =
      Inr (map (tmap (\<lambda>v. Fin ((real_of v - Min (all_values [demo_recon])) /
               (Max (all_values [demo_recon]) - Min (all_values [demo_recon]) + 1 / 10 ^ 8)))) [demo_recon])"
    using demo_fuse_hyps(5,6) by (intro scale_values_finite) simp_all
  then show "scale_values_between_zero_and_one [demo_recon]
     = Inr [\<lparr>shape = [2], vals = [Fin 0, Fin (1 / (1 + 1 / 10 ^ 8))]\<rparr>]"
    unfolding demo_fuse_values by (simp add: tmap_def demo_recon_def)
qed

text \<open>
  Claim C5, amended. With the weights \<open>{recon: 1, feature: 0, latent: 0}\<close> and both
  options off, for maps of one shape with finite elements and a non-empty latent list,
  \<open>fuse_heat_maps\<close> returns the reconstruction map alone, normalised twice: every element
  \<open>v\<close> becomes \<open>(n(v) - n(rmin)) / (n(rmax) - n(rmin) + 1e-8)\<close>, where
  \<open>n(u) = (u - gmin) / (gmax - gmin + 1e-8)\<close> is the normalisation by the minimum and maximum
  over the reconstruction map, the feature map and the summed latent maps together, and
  \<open>rmin\<close>, \<open>rmax\<close> are the minimum and maximum of the reconstruction map. The feature and
  latent maps enter through \<open>gmin\<close> and \<open>gmax\<close> only; the result is not in general the
  reconstruction map's own normalisation \<open>(v - rmin) / (rmax - rmin + 1e-8)\<close>.
\<close>

theorem fuse_recon_only_weights:
  assumes "py_sum latent_maps = Inr ls"
    and "shape feature = shape recon" and "shape ls = shape recon"
    and "length (vals feature) = length (vals recon)" and "length (vals ls) = length (vals recon)"
    and "vals recon \<noteq> []"
    and "finite_tensor recon" and "finite_tensor feature" and "finite_tensor ls"
  shows "fuse_heat_maps interp recon feature latent_maps (Some recon_only_weights) False False =
     Inr (tmap (\<lambda>v. Fin ((global_scaled [recon, feature, ls] (real_of v)
                            - global_scaled [recon, feature, ls] (Min (all_values [recon]))) /
                          (global_scaled [recon, feature, ls] (Max (all_values [recon]))
                            - global_scaled [recon, feature, ls] (Min (all_values [recon]))
                            + 1 / 10 ^ 8))) recon)"
proof -
  have "\<And>u w. global_scaled [recon, feature, ls] u - global_scaled [recon, feature, ls] w
      = (u - w) / spread [recon, feature, ls]"
    by (simp add: global_scaled_def diff_divide_distrib)
  then show ?thesis using fuse_recon_only_value [OF assms] by simp
qed

theorem fuse_recon_only_weights_witness:
  "py_sum demo_hist_a = Inr \<lparr>shape = [2], vals = [Fin 0, Fin 0]\<rparr> \<and>
   shape demo_feature = shape demo_recon \<and>
   length (vals demo_feature) = length (vals demo_recon) \<and>
   vals demo_recon \<noteq> [] \<and> finite_tensor demo_recon \<and> finite_tensor demo_feature \<and>
   fuse_heat_maps demo_interp demo_recon demo_feature demo_hist_a (Some recon_only_weights) False False
     = Inr (tmap (\<lambda>v. Fin
         ((global_scaled [demo_recon, demo_feature, \<lparr>shape = [2], vals = [Fin 0, Fin 0]\<rparr>] (real_of v)
           - global_scaled [demo_recon, demo_feature, \<lparr>shape = [2], vals = [Fin 0, Fin 0]\<rparr>]
               (Min (all_values [demo_recon]))) /
          (global_scaled [demo_recon, demo_feature, \<lparr>shape = [2], vals = [Fin 0, Fin 0]\<rparr>]
               (Max (all_values [demo_recon]))
           - global_scaled [demo_recon, demo_feature, \<lparr>shape = [2], vals = [Fin 0, Fin 0]\<rparr>]
               (Min (all_values [demo_recon]))
           + 1 / 10 ^ 8))) demo_recon)"
  using fuse_recon_only_weights [OF py_sum_demo demo_fuse_hyps, of demo_interp]
    py_sum_demo demo_fuse_hyps by blast

section \<open>forward_process.py: forward_diffusion_sample\<close>

lemma randn_like_const:
  "\<forall>k. gauss T g k = c \<Longrightarrow> fst (randn_like T g x) = full (shape x) (Fin c)"
  by (simp add: randn_like_def full_def map_replicate_const)

lemma fp_get_noise_fresh:
  assumes "\<forall>k. gauss T g k = c"
  shows "fp_get_noise T new_generator g x noise_type None =
     Inr \<lparr>noise_out = full (shape x) (Fin c), gen_out = remember new_generator (full (shape x) (Fin c)),
          rng_out = snd (randn_like T g x), printed = []\<rparr>"
proof -
  have m: "tmap (\<lambda>v. fl_mul v (Fin 1)) (full (shape x) (Fin c)) = full (shape x) (Fin c)"
    by (simp add: tmap_def full_def)
  have c: "calculate_adaptive_std new_generator x = Inr (Fin 1)"
    by (simp add: calculate_adaptive_std_def new_generator_def)
  show ?thesis
    by (simp add: fp_get_noise_def reseed_def bind_e_def c case_prod_beta m
        randn_like_const [OF assms])
qed

lemma shape_full: "shape (full sh v) = sh"
  by (simp add: full_def)

lemma get_index_head:
  "get_index_from_list (v # vs) [0] sh = Inr \<lparr>shape = 1 # replicate (length sh - 1) 1, vals = [v]\<rparr>"
  by (simp add: get_index_from_list_def)

lemma tbin_coeff_full:
  "tbin f \<lparr>shape = [Suc 0, Suc 0, Suc 0, Suc 0], vals = [a]\<rparr> (full [Suc 0, Suc 0, 4, 4] b)
     = Inr (full [Suc 0, Suc 0, 4, 4] (f a b))"
  by (simp add: tbin_def per_sample_def expand_def full_def numel_def numeral_3_eq_3)

lemma tbin_full_full:
  "tbin f (full sh a) (full sh b) = Inr (full sh (f a b))"
  by (simp add: tbin_def full_def)

text \<open>
  Claim C7. For \<open>x_0\<close> the all-zeros tensor of shape \<open>[1, 1, 4, 4]\<close>, \<open>t = [0]\<close>, a schedule
  whose tables start with \<open>sqrt_alphas_cumprod[0] = 0.99\<close> and
  \<open>sqrt_one_minus_alphas_cumprod[0] = 0.14\<close>, and a generator whose normal draws are all 1,
  \<open>forward_diffusion_sample\<close> returns the all-0.14 tensor of the shape of \<open>x_0\<close>, together
  with the all-ones noise, for every noise type.
\<close>

theorem forward_diffusion_sample_example:
  assumes "\<forall>k. gauss T g k = 1"
    and "constant_dict ''sqrt_alphas_cumprod'' = Some (Fin (99 / 100) # as)"
    and "constant_dict ''sqrt_one_minus_alphas_cumprod'' = Some (Fin (14 / 100) # bs)"
  shows "\<exists>G' g'. forward_diffusion_sample T g (full [1, 1, 4, 4] (Fin 0)) [0] constant_dict noise_type
           = Inr (full [1, 1, 4, 4] (Fin (14 / 100)), full [1, 1, 4, 4] (Fin 1), G', g') \<and>
         shape (full [1, 1, 4, 4] (Fin (14 / 100))) = shape (full [1, 1, 4, 4] (Fin 0))"
proof -
  let ?x = "full [1, 1, 4, 4] (Fin 0)"
  have n: "fp_get_noise T new_generator g (full [Suc 0, Suc 0, 4, 4] (Fin 0)) noise_type None =
     Inr \<lparr>noise_out = full [Suc 0, Suc 0, 4, 4] (Fin 1),
          gen_out = remember new_generator (full [Suc 0, Suc 0, 4, 4] (Fin 1)),
          rng_out = snd (randn_like T g (full [Suc 0, Suc 0, 4, 4] (Fin 0))), printed = []\<rparr>"
    using fp_get_noise_fresh [OF assms(1), of "full [Suc 0, Suc 0, 4, 4] (Fin 0)" noise_type]
    by (simp add: shape_full)
  have "forward_diffusion_sample T g ?x [0] constant_dict noise_type
      = Inr (full [1, 1, 4, 4] (Fin (14 / 100)), full [1, 1, 4, 4] (Fin 1),
             remember new_generator (full [1, 1, 4, 4] (Fin 1)), snd (randn_like T g ?x))"
    unfolding forward_diffusion_sample_def forward_diffusion_sample_method_def
    by (simp add: lookup_def assms(2,3) n bind_e_def get_index_head shape_full tbin_coeff_full
        tbin_full_full numeral_3_eq_3)
  then show ?thesis by (simp add: full_def)
qed

theorem forward_diffusion_sample_example_witness:
  "(\<forall>k. gauss ones_rng 0 k = 1) \<and>
   demo_schedule ''sqrt_alphas_cumprod'' = Some (Fin (99 / 100) # [Fin (9 / 10)]) \<and>
   demo_schedule ''sqrt_one_minus_alphas_cumprod'' = Some (Fin (14 / 100) # [Fin (4 / 10)]) \<and>
   (\<exists>G' g'. forward_diffusion_sample ones_rng 0 (full [1, 1, 4, 4] (Fin 0)) [0] demo_schedule
               ''adaptive_gaussian''
           = Inr (full [1, 1, 4, 4] (Fin (14 / 100)), full [1, 1, 4, 4] (Fin 1), G', g'))"
proof -
  have a: "\<forall>k. gauss ones_rng 0 k = 1" by (simp add: ones_rng_def)
  have b: "demo_schedule ''sqrt_alphas_cumprod'' = Some (Fin (99 / 100) # [Fin (9 / 10)])"
    by (simp add: demo_schedule_def)
  have c: "demo_schedule ''sqrt_one_minus_alphas_cumprod'' = Some (Fin (14 / 100) # [Fin (4 / 10)])"
    by (simp add: demo_schedule_def)
  from forward_diffusion_sample_example [OF a b c, of "''adaptive_gaussian''"] a b c
  show ?thesis by blast
qed

section \<open>loss.py: the weighting of get_loss\<close>

lemma sigmoid_pos: "0 < sigmoid x"
  by (simp add: sigmoid_def add_pos_pos)

lemma importance_sum: "importance x y z + importance y x z + importance z x y = 1"
proof -
  have "sigmoid x + sigmoid y + sigmoid z \<noteq> 0"
    using sigmoid_pos [of x] sigmoid_pos [of y] sigmoid_pos [of z] by linarith
  then show ?thesis
    by (simp add: importance_def add.commute add.left_commute add_divide_distrib [symmetric])
qed

lemma final_loss_finite:
  "final_loss (Fin b) (Fin a) (Fin n) =
     Fin (importance b a n * b + importance a b n * a + importance n b a * n)"
proof -
  have nz: "sigmoid b + sigmoid a + sigmoid n \<noteq> 0"
    using sigmoid_pos [of b] sigmoid_pos [of a] sigmoid_pos [of n] by linarith
  then have nz': "1 / (1 + exp (- b)) + 1 / (1 + exp (- a)) + 1 / (1 + exp (- n)) \<noteq> 0"
    by (simp add: sigmoid_def)
  show ?thesis
    unfolding final_loss_def Let_def fl_sigmoid.simps fl_add.simps fl_div.simps
    using nz' by (simp add: importance_def sigmoid_def add.commute add.left_commute)
qed

text \<open>
  Claim C8. Whenever the three loss terms of \<open>get_loss\<close> (plain MSE, MSE weighted by
  \<open>1 / (t + 1)\<close>, L2 norm of the residual) are finite, each importance weight is the sigmoid
  of its term divided by the sum of the three sigmoids, the three normalised weights sum to 1,
  and the returned loss is the sum of each normalised weight times its term.
\<close>

theorem get_loss_weighted_sum:
  assumes "loss_terms T g model constant_dict x_0 t = Inr ((Fin b, Fin a, Fin n), g1)"
  shows "get_loss T g model constant_dict x_0 t =
           Inr (Fin (importance b a n * b + importance a b n * a + importance n b a * n), g1) \<and>
         importance b a n = sigmoid b / (sigmoid b + sigmoid a + sigmoid n) \<and>
         importance a b n = sigmoid a / (sigmoid a + sigmoid b + sigmoid n) \<and>
         importance n b a = sigmoid n / (sigmoid n + sigmoid b + sigmoid a) \<and>
         importance b a n + importance a b n + importance n b a = 1"
proof -
  have "get_loss T g model constant_dict x_0 t = Inr (final_loss (Fin b) (Fin a) (Fin n), g1)"
    by (simp add: get_loss_def assms bind_e_def)
  then have 1: "get_loss T g model constant_dict x_0 t =
           Inr (Fin (importance b a n * b + importance a b n * a + importance n b a * n), g1)"
    by (simp only: final_loss_finite)
  have 2: "importance b a n + importance a b n + importance n b a = 1"
    by (rule importance_sum)
  from 1 2 show ?thesis by (simp add: importance_def)
qed

lemma demo_loss_terms:
  "loss_terms ones_rng 0 zero_model demo_betas (full [1, 1, 2, 2] (Fin 0)) [0]
     = Inr ((Fin 1, Fin 1, Fin 2), 4)"
  by (simp add: loss_terms_def lookup_def demo_betas_def bind_e_def randn_like_def ones_rng_def
      full_def numel_def cumprod_def index_select_def fl_sub_def tbin_def per_sample_def
      expand_def tmap_def zero_model_def tensor_mean_def fl_sum_def tensor_norm_def
      map_replicate_const numeral_3_eq_3 numeral_2_eq_2)

theorem get_loss_weighted_sum_witness:
  "loss_terms ones_rng 0 zero_model demo_betas (full [1, 1, 2, 2] (Fin 0)) [0]
     = Inr ((Fin 1, Fin 1, Fin 2), 4) \<and>
   get_loss ones_rng 0 zero_model demo_betas (full [1, 1, 2, 2] (Fin 0)) [0]
     = Inr (Fin (importance 1 1 2 * 1 + importance 1 1 2 * 1 + importance 2 1 1 * 2), 4) \<and>
   importance 1 1 2 + importance 1 1 2 + importance 2 1 1 = 1"
  using get_loss_weighted_sum [OF demo_loss_terms] demo_loss_terms by blast

section \<open>sample.py: the stochastic coefficients\<close>

lemma coeff_lists:
  "length xs = length ys \<Longrightarrow>
   map2 fl_div
     (map2 fl_mul (map (fl_sub (Fin 1)) (map2 fl_div xs ys)) (map (fl_sub (Fin 1)) ys))
     (map (fl_sub (Fin 1)) xs) = map2 radicand xs ys"
  by (induction xs ys rule: list_induct2) (simp_all add: radicand_def)

lemma c1_lists:
  "length xs = length ys \<Longrightarrow>
   map (fl_mul eta) (map fl_sqrt (map2 radicand xs ys)) = map2 (c1_of eta) xs ys"
  by (induction xs ys rule: list_induct2) (simp_all add: c1_of_def)

lemma c2_lists:
  "length xs = length ys \<Longrightarrow>
   map fl_sqrt (map2 fl_sub (map (fl_sub (Fin 1)) ys) (map (\<lambda>c. fl_mul c c) (map2 (c1_of eta) xs ys)))
     = map2 (c2_of eta) xs ys"
  by (induction xs ys rule: list_induct2) (simp_all add: c2_of_def)

lemma stoch_coeffs_elementwise:
  assumes "shape a_t = shape a_next" and "length (vals a_t) = length (vals a_next)"
  shows "stoch_coeffs eta a_t a_next =
     Inr (\<lparr>shape = shape a_t, vals = map2 (c1_of eta) (vals a_t) (vals a_next)\<rparr>,
          \<lparr>shape = shape a_t, vals = map2 (c2_of eta) (vals a_t) (vals a_next)\<rparr>)"
proof -
  note l = coeff_lists [OF assms(2)] c1_lists [OF assms(2), of eta] c2_lists [OF assms(2), of eta]
  show ?thesis
    unfolding stoch_coeffs_def tbin_def smul_def tmap_def bind_e_def Let_def
    using assms(1) l by (simp del: map_map)
qed

lemma radicand_ordered:
  assumes "0 < a" and "a \<le> an" and "an \<le> 1" and "a < 1"
  shows "radicand (Fin a) (Fin an) = Fin ((1 - a / an) * (1 - an) / (1 - a))"
    and "0 \<le> (1 - a / an) * (1 - an) / (1 - a)"
proof -
  have an: "0 < an" using assms by linarith
  show "radicand (Fin a) (Fin an) = Fin ((1 - a / an) * (1 - an) / (1 - a))"
    using an assms(4) by (simp add: radicand_def fl_sub_def)
  have q: "a / an \<le> 1" using an assms(2) by (simp add: divide_le_eq_1)
  then have f1: "0 \<le> 1 - a / an" by simp
  have f2: "0 \<le> 1 - an" using assms(3) by simp
  have f3: "0 < 1 - a" using assms(4) by simp
  show "0 \<le> (1 - a / an) * (1 - an) / (1 - a)"
    using f1 f2 f3 by (intro divide_nonneg_pos mult_nonneg_nonneg)
qed

lemma c1_ordered:
  assumes "0 < a" and "a \<le> an" and "an \<le> 1" and "a < 1"
  shows "c1_of (Fin e) (Fin a) (Fin an) = Fin (e * sqrt ((1 - a / an) * (1 - an) / (1 - a)))"
  using radicand_ordered(1,2) [OF assms] by (simp add: c1_of_def)

lemma fl_mul_NaN: "fl_mul e NaN = NaN"
  by (cases e) simp_all

lemma coeffs_reversed:
  assumes "0 < an" and "an < 1" and "a < 1" and "1 < a / an"
  shows "c1_of eta (Fin a) (Fin an) = NaN" and "c2_of eta (Fin a) (Fin an) = NaN"
proof -
  have f1: "1 - a / an < 0" using assms(4) by simp
  have f2: "0 < 1 - an" using assms(2) by simp
  have f3: "0 < 1 - a" using assms(3) by simp
  have "(1 - a / an) * (1 - an) < 0" using f1 f2 by (rule mult_neg_pos)
  then have neg: "(1 - a / an) * (1 - an) / (1 - a) < 0" using f3 by (rule divide_neg_pos)
  have "radicand (Fin a) (Fin an) = Fin ((1 - a / an) * (1 - an) / (1 - a))"
    using assms by (simp add: radicand_def fl_sub_def)
  then have "fl_sqrt (radicand (Fin a) (Fin an)) = NaN" using neg by simp
  then show c1: "c1_of eta (Fin a) (Fin an) = NaN" by (simp add: c1_of_def fl_mul_NaN)
  show "c2_of eta (Fin a) (Fin an) = NaN" unfolding c2_of_def c1 by (simp add: fl_sub_def)
qed

text \<open>
  Claim C1, as stated, fails: neither variant clamps the radicand. With \<open>alpha_i = 0.9\<close> and
  \<open>alpha_j = 0.5\<close> the ratio is 1.8, the radicand is \<open>(1 - 1.8) * 0.5 / 0.1 = -4\<close>, and both
  \<open>c1\<close> and \<open>c2\<close> are NaN.
\<close>

theorem stoch_coeffs_unclamped_counterexample:
  "radicand (Fin (9 / 10)) (Fin (1 / 2)) = Fin (- 4) \<and>
   stoch_coeffs (Fin 1) (demo_alpha (9 / 10)) (demo_alpha (1 / 2))
     = Inr (\<lparr>shape = [1, 1, 1, 1], vals = [NaN]\<rparr>, \<lparr>shape = [1, 1, 1, 1], vals = [NaN]\<rparr>)"
proof
  show "radicand (Fin (9 / 10)) (Fin (1 / 2)) = Fin (- 4)"
    by (simp add: radicand_def fl_sub_def)
  have "stoch_coeffs (Fin 1) (demo_alpha (9 / 10)) (demo_alpha (1 / 2)) =
     Inr (\<lparr>shape = shape (demo_alpha (9 / 10)),
            vals = map2 (c1_of (Fin 1)) (vals (demo_alpha (9 / 10))) (vals (demo_alpha (1 / 2)))\<rparr>,
          \<lparr>shape = shape (demo_alpha (9 / 10)),
            vals = map2 (c2_of (Fin 1)) (vals (demo_alpha (9 / 10))) (vals (demo_alpha (1 / 2)))\<rparr>)"
    by (rule stoch_coeffs_elementwise) (simp_all add: demo_alpha_def)
  moreover have "c1_of (Fin 1) (Fin (9 / 10)) (Fin (1 / 2)) = NaN"
    "c2_of (Fin 1) (Fin (9 / 10)) (Fin (1 / 2)) = NaN"
    by (rule coeffs_reversed; simp)+
  ultimately show "stoch_coeffs (Fin 1) (demo_alpha (9 / 10)) (demo_alpha (1 / 2))
     = Inr (\<lparr>shape = [1, 1, 1, 1], vals = [NaN]\<rparr>, \<lparr>shape = [1, 1, 1, 1], vals = [NaN]\<rparr>)"
    by (simp add: demo_alpha_def)
qed

text \<open>
  Claim C1, amended. In both variants the coefficients are computed element by element
  as \<open>c1 = eta * sqrt(r)\<close> and \<open>c2 = sqrt((1 - alpha_j) - c1^2)\<close>, with the radicand
  \<open>r = (1 - alpha_i / alpha_j) * (1 - alpha_j) / (1 - alpha_i)\<close> passed to the square root
  as it is, without a clamp. For \<open>0 < alpha_i \<le> alpha_j \<le> 1\<close> and \<open>alpha_i < 1\<close>, where the
  ratio is at most 1, the radicand is not negative and \<open>c1\<close> is a number. When the ratio
  \<open>alpha_i / alpha_j\<close> as computed exceeds 1 (with \<open>0 < alpha_j < 1\<close> and \<open>alpha_i < 1\<close>)
  the radicand is negative and \<open>c1\<close> and \<open>c2\<close> are NaN. Nothing is stated on \<open>c2\<close> when
  the ratio is at most 1.
\<close>

theorem stoch_coeffs_unclamped:
  assumes "shape a_t = shape a_next" and "length (vals a_t) = length (vals a_next)"
  shows "stoch_coeffs eta a_t a_next =
           Inr (\<lparr>shape = shape a_t, vals = map2 (c1_of eta) (vals a_t) (vals a_next)\<rparr>,
                \<lparr>shape = shape a_t, vals = map2 (c2_of eta) (vals a_t) (vals a_next)\<rparr>) \<and>
         (\<forall>a an e. 0 < a \<and> a \<le> an \<and> an \<le> 1 \<and> a < 1 \<longrightarrow>
            radicand (Fin a) (Fin an) = Fin ((1 - a / an) * (1 - an) / (1 - a)) \<and>
            0 \<le> (1 - a / an) * (1 - an) / (1 - a) \<and>
            c1_of (Fin e) (Fin a) (Fin an) = Fin (e * sqrt ((1 - a / an) * (1 - an) / (1 - a)))) \<and>
         (\<forall>a an. 0 < an \<and> an < 1 \<and> a < 1 \<and> 1 < a / an \<longrightarrow>
            c1_of eta (Fin a) (Fin an) = NaN \<and> c2_of eta (Fin a) (Fin an) = NaN)"
proof (intro conjI allI impI)
  show "stoch_coeffs eta a_t a_next =
           Inr (\<lparr>shape = shape a_t, vals = map2 (c1_of eta) (vals a_t) (vals a_next)\<rparr>,
                \<lparr>shape = shape a_t, vals = map2 (c2_of eta) (vals a_t) (vals a_next)\<rparr>)"
    using assms by (rule stoch_coeffs_elementwise)
next
  fix a an e :: real assume h: "0 < a \<and> a \<le> an \<and> an \<le> 1 \<and> a < 1"
  then show "radicand (Fin a) (Fin an) = Fin ((1 - a / an) * (1 - an) / (1 - a))"
    by (intro radicand_ordered(1)) simp_all
  from h show "0 \<le> (1 - a / an) * (1 - an) / (1 - a)" by (intro radicand_ordered(2)) simp_all
  from h show "c1_of (Fin e) (Fin a) (Fin an) = Fin (e * sqrt ((1 - a / an) * (1 - an) / (1 - a)))"
    by (intro c1_ordered) simp_all
next
  fix a an :: real assume h: "0 < an \<and> an < 1 \<and> a < 1 \<and> 1 < a / an"
  then show "c1_of eta (Fin a) (Fin an) = NaN" by (intro coeffs_reversed(1)) simp_all
  from h show "c2_of eta (Fin a) (Fin an) = NaN" by (intro coeffs_reversed(2)) simp_all
qed

theorem stoch_coeffs_unclamped_witness:
  "shape (demo_alpha (1 / 2)) = shape (demo_alpha (3 / 4)) \<and>
   length (vals (demo_alpha (1 / 2))) = length (vals (demo_alpha (3 / 4))) \<and>
   stoch_coeffs (Fin (1 / 2)) (demo_alpha (1 / 2)) (demo_alpha (3 / 4)) =
     Inr (\<lparr>shape = shape (demo_alpha (1 / 2)),
            vals = map2 (c1_of (Fin (1 / 2))) (vals (demo_alpha (1 / 2))) (vals (demo_alpha (3 / 4)))\<rparr>,
          \<lparr>shape = shape (demo_alpha (1 / 2)),
            vals = map2 (c2_of (Fin (1 / 2))) (vals (demo_alpha (1 / 2))) (vals (demo_alpha (3 / 4)))\<rparr>) \<and>
   c1_of (Fin (1 / 2)) (Fin (1 / 2)) (Fin (3 / 4))
     = Fin (1 / 2 * sqrt ((1 - (1 / 2) / (3 / 4)) * (1 - 3 / 4) / (1 - 1 / 2))) \<and>
   (1::real) < (3 / 4) / (1 / 2) \<and>
   c1_of (Fin (1 / 2)) (Fin (3 / 4)) (Fin (1 / 2)) = NaN \<and>
   c2_of (Fin (1 / 2)) (Fin (3 / 4)) (Fin (1 / 2)) = NaN"
proof -
  have s: "shape (demo_alpha (1 / 2)) = shape (demo_alpha (3 / 4))"
    "length (vals (demo_alpha (1 / 2))) = length (vals (demo_alpha (3 / 4)))"
    by (simp_all add: demo_alpha_def)
  note t = stoch_coeffs_unclamped [OF s, of "Fin (1 / 2)"]
  have o: "(0::real) < 1 / 2 \<and> (1 / 2 :: real) \<le> 3 / 4 \<and> (3 / 4 :: real) \<le> 1 \<and> (1 / 2 :: real) < 1"
    by simp
  have q: "(1::real) < (3 / 4) / (1 / 2)" by simp
  have r: "(0::real) < 1 / 2 \<and> (1 / 2 :: real) < 1 \<and> (3 / 4 :: real) < 1 \<and> (1::real) < (3 / 4) / (1 / 2)"
    by simp
  from t have 1: "stoch_coeffs (Fin (1 / 2)) (demo_alpha (1 / 2)) (demo_alpha (3 / 4)) =
     Inr (\<lparr>shape = shape (demo_alpha (1 / 2)),
            vals = map2 (c1_of (Fin (1 / 2))) (vals (demo_alpha (1 / 2))) (vals (demo_alpha (3 / 4)))\<rparr>,
          \<lparr>shape = shape (demo_alpha (1 / 2)),
            vals = map2 (c2_of (Fin (1 / 2))) (vals (demo_alpha (1 / 2))) (vals (demo_alpha (3 / 4)))\<rparr>)"
    by (rule conjunct1)
  from t have 2: "\<forall>a an e. 0 < a \<and> a \<le> an \<and> an \<le> 1 \<and> a < 1 \<longrightarrow>
            radicand (Fin a) (Fin an) = Fin ((1 - a / an) * (1 - an) / (1 - a)) \<and>
            0 \<le> (1 - a / an) * (1 - an) / (1 - a) \<and>
            c1_of (Fin e) (Fin a) (Fin an) = Fin (e * sqrt ((1 - a / an) * (1 - an) / (1 - a)))"
    by blast
  from t have 3: "\<forall>a an. 0 < an \<and> an < 1 \<and> a < 1 \<and> 1 < a / an \<longrightarrow>
            c1_of (Fin (1 / 2)) (Fin a) (Fin an) = NaN \<and> c2_of (Fin (1 / 2)) (Fin a) (Fin an) = NaN"
    by blast
  from 2 [rule_format, of "1 / 2" "3 / 4" "1 / 2"] o
  have 4: "c1_of (Fin (1 / 2)) (Fin (1 / 2)) (Fin (3 / 4))
     = Fin (1 / 2 * sqrt ((1 - (1 / 2) / (3 / 4)) * (1 - 3 / 4) / (1 - 1 / 2)))"
    by blast
  from 3 [rule_format, of "1 / 2" "3 / 4"] r
  have 5: "c1_of (Fin (1 / 2)) (Fin (3 / 4)) (Fin (1 / 2)) = NaN"
    "c2_of (Fin (1 / 2)) (Fin (3 / 4)) (Fin (1 / 2)) = NaN"
    by blast+
  from s 1 4 q 5 show ?thesis by blast
qed

section \<open>sample.py: determinism with eta = 0\<close>

lemma zero_or_nan: "fl_mul (Fin 0) v = Fin 0 \<or> fl_mul (Fin 0) v = NaN"
  by (cases v) (simp_all add: inf_of_def)

lemma mul_zero_nan_indep:
  "c = Fin 0 \<or> c = NaN \<Longrightarrow> is_Fin u \<Longrightarrow> is_Fin w \<Longrightarrow> fl_mul c u = fl_mul c w"
  by (cases u; cases w) auto

lemma map2_mul_indep:
  "\<forall>c\<in>set cs. c = Fin 0 \<or> c = NaN \<Longrightarrow> length xs = length ys \<Longrightarrow>
   list_all is_Fin xs \<Longrightarrow> list_all is_Fin ys \<Longrightarrow> map2 fl_mul cs xs = map2 fl_mul cs ys"
proof (induction cs arbitrary: xs ys)
  case Nil
  show ?case by simp
next
  case (Cons c cs)
  show ?case
  proof (cases xs)
    case Nil
    with Cons.prems(2) show ?thesis by simp
  next
    case xs: (Cons u us)
    with Cons.prems(2) obtain w ws where ys: "ys = w # ws" by (cases ys) auto
    have h: "fl_mul c u = fl_mul c w"
      using Cons.prems xs ys by (intro mul_zero_nan_indep) simp_all
    have t: "map2 fl_mul cs us = map2 fl_mul cs ws"
      using Cons.prems xs ys by (intro Cons.IH) simp_all
    from h t show ?thesis by (simp add: xs ys)
  qed
qed

lemma expand_finite:
  "list_all is_Fin (vals z) \<Longrightarrow> list_all is_Fin (expand z c)"
  by (auto simp: expand_def list_all_iff)

lemma expand_length:
  "length (vals z1) = length (vals z2) \<Longrightarrow> length (expand z1 c) = length (expand z2 c)"
proof -
  assume l: "length (vals z1) = length (vals z2)"
  have "\<And>k vs. length (concat (map (replicate k) vs)) = k * length (vs :: fl list)"
    by (induct_tac vs) simp_all
  then show ?thesis using l by (simp add: expand_def)
qed

lemma expand_set: "set (expand c z) \<subseteq> set (vals c)"
  by (auto simp: expand_def)

lemma tbin_mul_indep:
  assumes c: "\<forall>c\<in>set (vals c1). c = Fin 0 \<or> c = NaN"
    and sh: "shape z1 = shape z2" and len: "length (vals z1) = length (vals z2)"
    and f1: "finite_tensor z1" and f2: "finite_tensor z2"
  shows "tbin fl_mul c1 z1 = tbin fl_mul c1 z2"
proof -
  have a: "map2 fl_mul (vals c1) (vals z1) = map2 fl_mul (vals c1) (vals z2)"
    using c len f1 f2 unfolding finite_tensor_def by (rule map2_mul_indep)
  have e: "expand c1 z1 = expand c1 z2" by (simp add: expand_def sh)
  have "\<forall>c\<in>set (expand c1 z2). c = Fin 0 \<or> c = NaN" using c expand_set [of c1 z2] by blast
  then have b: "map2 fl_mul (expand c1 z2) (vals z1) = map2 fl_mul (expand c1 z2) (vals z2)"
    using len f1 f2 unfolding finite_tensor_def by (rule map2_mul_indep)
  have d: "map2 fl_mul (vals c1) (expand z1 c1) = map2 fl_mul (vals c1) (expand z2 c1)"
    using c expand_length [OF len] expand_finite expand_finite f1 f2
    unfolding finite_tensor_def by (intro map2_mul_indep) auto
  have p1: "per_sample c1 z1 = per_sample c1 z2" by (simp add: per_sample_def sh)
  have p2: "per_sample z1 c1 = per_sample z2 c1" by (simp add: per_sample_def sh)
  show ?thesis unfolding tbin_def p1 p2 e by (simp add: sh a b d)
qed

lemma randn_like_facts:
  "shape (fst (randn_like T g x)) = shape x"
  "length (vals (fst (randn_like T g x))) = numel (shape x)"
  "finite_tensor (fst (randn_like T g x))"
  by (simp_all add: randn_like_def finite_tensor_def list_all_iff)

lemma full_facts:
  "length (vals (full sh v)) = numel sh" "finite_tensor (full sh (Fin r))"
  by (simp_all add: full_def finite_tensor_def list_all_iff)

lemma mul_zero_randn:
  "tbin fl_mul (smul (Fin 0) r) (fst (randn_like T g x))
     = tbin fl_mul (smul (Fin 0) r) (full (shape x) (Fin 0))"
proof (rule tbin_mul_indep)
  show "\<forall>c\<in>set (vals (smul (Fin 0) r)). c = Fin 0 \<or> c = NaN"
    using zero_or_nan by (auto simp: smul_def tmap_def)
qed (simp_all add: randn_like_facts full_facts shape_full)

lemma mul_zeros_randn:
  "tbin fl_mul (tmap (\<lambda>v. Fin 0) r) (fst (randn_like T g x))
     = tbin fl_mul (tmap (\<lambda>v. Fin 0) r) (full (shape x) (Fin 0))"
proof (rule tbin_mul_indep)
  show "\<forall>c\<in>set (vals (tmap (\<lambda>v. Fin 0) r)). c = Fin 0 \<or> c = NaN"
    by (auto simp: tmap_def)
qed (simp_all add: randn_like_facts full_facts shape_full)

lemma bind_e_simps:
  "bind_e (Inl e) f = Inl e"
  "bind_e (Inr v) f = f v"
  "bind_e (bind_e m f) h = bind_e m (\<lambda>v. bind_e (f v) h)"
  by (simp_all add: bind_e_def split: sum.splits)

lemma traj_bind: "traj (bind_e m f) = bind_e m (\<lambda>v. traj (f v))"
  by (simp add: traj_def bind_e_def split: sum.splits)

lemma traj_Inr: "traj (Inr (xs, x0s, g)) = Inr (xs, x0s)"
  by (simp add: traj_def)

lemma traj_Inl: "traj (Inl e) = Inl e"
  by (simp add: traj_def)

lemma my_iteration_indep:
  "traj (my_iteration T1 ca model (Fin 0) eta2 b y x seq idx (xs, x0s, g1))
     = traj (my_iteration T2 ca model (Fin 0) eta2 b y x seq idx (xs, x0s, g2))"
  by (simp add: my_iteration_def stoch_coeffs_def next_state_def traj_bind traj_Inr bind_e_simps
      case_prod_beta Let_def mul_zero_randn)

lemma da_iteration_indep:
  "traj (da_iteration T1 ca model (Fin 0) eta2 b y x first ij (xs, x0s, g1))
     = traj (da_iteration T2 ca model (Fin 0) eta2 b y x first ij (xs, x0s, g2))"
proof (cases first)
  case True
  then show ?thesis
    by (simp add: da_iteration_def next_state_def traj_bind traj_Inr bind_e_simps
        case_prod_beta Let_def mul_zeros_randn)
next
  case False
  then show ?thesis
    by (simp add: da_iteration_def stoch_coeffs_def next_state_def traj_bind traj_Inr bind_e_simps
        case_prod_beta Let_def mul_zero_randn)
qed

lemma traj_eq_Inl: "traj r = Inl e \<longleftrightarrow> r = Inl e"
  by (cases r) (simp_all add: traj_def)

lemma traj_eq_Inr: "traj r = Inr (xs, x0s) \<longleftrightarrow> (\<exists>g. r = Inr (xs, x0s, g))"
  by (cases r) (auto simp: traj_def)

lemma my_loop_indep:
  "traj (my_loop T1 ca model (Fin 0) eta2 b y x seq idxs (xs, x0s, g1))
     = traj (my_loop T2 ca model (Fin 0) eta2 b y x seq idxs (xs, x0s, g2))"
proof (induction idxs arbitrary: xs x0s g1 g2)
  case Nil
  show ?case by (simp add: traj_Inr)
next
  case (Cons idx rest)
  let ?r1 = "my_iteration T1 ca model (Fin 0) eta2 b y x seq idx (xs, x0s, g1)"
  let ?r2 = "my_iteration T2 ca model (Fin 0) eta2 b y x seq idx (xs, x0s, g2)"
  have eq: "traj ?r1 = traj ?r2" by (rule my_iteration_indep)
  show ?case
  proof (cases ?r1)
    case (Inl e)
    then have "traj ?r2 = Inl e" using eq by (simp add: traj_def)
    then have "?r2 = Inl e" by (simp add: traj_eq_Inl)
    with Inl show ?thesis by (simp add: bind_e_simps traj_Inl)
  next
    case (Inr st)
    obtain xs' x0s' g1' where st: "st = (xs', x0s', g1')" by (cases st) auto
    have "traj ?r2 = Inr (xs', x0s')" using eq Inr st by (simp add: traj_def)
    then obtain g2' where r2: "?r2 = Inr (xs', x0s', g2')" by (auto simp: traj_eq_Inr)
    show ?thesis using Cons.IH [of xs' x0s' g1' g2'] by (simp add: Inr st r2 bind_e_simps)
  qed
qed

lemma da_loop_indep:
  "traj (da_loop T1 ca model (Fin 0) eta2 b y x first ijs (xs, x0s, g1))
     = traj (da_loop T2 ca model (Fin 0) eta2 b y x first ijs (xs, x0s, g2))"
proof (induction ijs arbitrary: xs x0s g1 g2 first)
  case Nil
  show ?case by (simp add: traj_Inr)
next
  case (Cons ij rest)
  let ?r1 = "da_iteration T1 ca model (Fin 0) eta2 b y x first ij (xs, x0s, g1)"
  let ?r2 = "da_iteration T2 ca model (Fin 0) eta2 b y x first ij (xs, x0s, g2)"
  have eq: "traj ?r1 = traj ?r2" by (rule da_iteration_indep)
  show ?case
  proof (cases ?r1)
    case (Inl e)
    then have "traj ?r2 = Inl e" using eq by (simp add: traj_def)
    then have "?r2 = Inl e" by (simp add: traj_eq_Inl)
    with Inl show ?thesis by (simp add: bind_e_simps traj_Inl)
  next
    case (Inr st)
    obtain xs' x0s' g1' where st: "st = (xs', x0s', g1')" by (cases st) auto
    have "traj ?r2 = Inr (xs', x0s')" using eq Inr st by (simp add: traj_def)
    then obtain g2' where r2: "?r2 = Inr (xs', x0s', g2')" by (auto simp: traj_eq_Inr)
    show ?thesis using Cons.IH [of False xs' x0s' g1' g2'] by (simp add: Inr st r2 bind_e_simps)
  qed
qed

text \<open>
  Claim C4. With \<open>eta = 0\<close> both samplers are deterministic: two runs on the same inputs
  (\<open>y\<close>, \<open>x\<close>, \<open>seq\<close>, betas, \<open>eta2\<close>) with the same denoiser and the same alpha function
  return the same histories \<open>xs\<close> and \<open>x0_preds\<close> (or raise the same error), whatever the
  random generators and their states. With \<open>eta = 0\<close> the coefficient \<open>c1\<close> is 0 (or NaN)
  at every step, so the random tensor does not reach the result; the claim's further
  hypothesis \<open>c2 = 0\<close> is not needed.
\<close>

theorem reverse_sampler_deterministic:
  "traj (my_generalized_steps T1 g1 compute_alpha2 model (Fin 0) y x seq b eta2)
     = traj (my_generalized_steps T2 g2 compute_alpha2 model (Fin 0) y x seq b eta2) \<and>
   traj (DA_generalized_steps T1 g1 compute_alpha model (Fin 0) y x seq' b eta2)
     = traj (DA_generalized_steps T2 g2 compute_alpha model (Fin 0) y x seq' b eta2)"
proof
  show "traj (my_generalized_steps T1 g1 compute_alpha2 model (Fin 0) y x seq b eta2)
     = traj (my_generalized_steps T2 g2 compute_alpha2 model (Fin 0) y x seq b eta2)"
    by (cases seq) (simp_all add: my_generalized_steps_def my_loop_indep traj_Inl)
  show "traj (DA_generalized_steps T1 g1 compute_alpha model (Fin 0) y x seq' b eta2)
     = traj (DA_generalized_steps T2 g2 compute_alpha model (Fin 0) y x seq' b eta2)"
    by (simp add: DA_generalized_steps_def Let_def da_loop_indep traj_Inl)
qed

lemma demo_alpha_spec:
  "compute_alpha_spec [Fin (1 / 2)] [0] = Inr (demo_alpha (1 / 2))"
  "compute_alpha_spec [Fin (1 / 2)] [- 1] = Inr (demo_alpha 1)"
  by (simp_all add: compute_alpha_spec_def cumprod_def fl_sub_def demo_alpha_def)

lemma demo_scale:
  "compute_adaptive_noise_scale demo_image (zero_model demo_image t) a = Fin (1 / 2)"
  by (simp add: compute_adaptive_noise_scale_def demo_image_def zero_model_def full_def numel_def
      tmap_def tensor_norm_def fl_sum_def py_min_def py_max_def numeral_2_eq_2)

lemma demo_estimate:
  "corrected_estimate (Fin 1) demo_image demo_image (zero_model demo_image t) (demo_alpha (1 / 2))
     = Inr (demo_image, demo_image)"
  unfolding corrected_estimate_def demo_scale Let_def
  by (simp add: demo_image_def zero_model_def full_def numel_def tmap_def tbin_def per_sample_def
      expand_def bind_e_def fl_sub_def numeral_2_eq_2 numeral_3_eq_3 demo_alpha_def)

lemma demo_coeffs:
  "stoch_coeffs (Fin 0) (demo_alpha (1 / 2)) (demo_alpha 1) = Inr (demo_alpha 0, demo_alpha 0)"
  by (simp add: stoch_coeffs_elementwise c1_of_def c2_of_def radicand_def fl_sub_def demo_alpha_def)

lemma demo_next:
  "next_state (demo_alpha 1) demo_image (demo_alpha 0) (fst (randn_like T g demo_image))
      (demo_alpha 0) demo_image = Inr demo_image"
  by (simp add: next_state_def demo_image_def randn_like_def full_def numel_def tmap_def tbin_def
      per_sample_def expand_def bind_e_def numeral_2_eq_2 numeral_3_eq_3 upt_rec demo_alpha_def)

lemma demo_next_zeros:
  "next_state (demo_alpha 1) demo_image
      (tmap (\<lambda>v. Fin 0) demo_image) (fst (randn_like T g demo_image))
      (tmap (\<lambda>v. Fin 0) demo_image) demo_image = Inr demo_image"
  by (simp add: next_state_def demo_image_def randn_like_def full_def numel_def tmap_def tbin_def
      per_sample_def expand_def bind_e_def numeral_2_eq_2 numeral_3_eq_3 upt_rec demo_alpha_def)

lemma demo_shape: "shape demo_image \<noteq> []" "hd (shape demo_image) = 1"
  by (simp_all add: demo_image_def full_def)

lemma demo_my_run:
  "traj (my_generalized_steps T g compute_alpha_spec zero_model (Fin 0) demo_image demo_image [[0]]
          [Fin (1 / 2)] (Fin 1))
     = Inr ([demo_image, demo_image], [demo_image])"
  by (simp add: my_generalized_steps_def my_iteration_def demo_shape item_at_def bind_e_simps
      demo_alpha_spec demo_estimate demo_coeffs demo_next case_prod_beta traj_Inr)

lemma demo_da_run:
  "traj (DA_generalized_steps T g compute_alpha_spec zero_model (Fin 0) demo_image demo_image [0]
          [Fin (1 / 2)] (Fin 1))
     = Inr ([demo_image, demo_image], [demo_image])"
  by (simp add: DA_generalized_steps_def da_iteration_def demo_shape bind_e_simps trunc_half_def
      demo_alpha_spec demo_estimate demo_next_zeros case_prod_beta traj_Inr)

theorem reverse_sampler_deterministic_witness:
  "traj (my_generalized_steps ones_rng 0 compute_alpha_spec zero_model (Fin 0) demo_image demo_image
          [[0]] [Fin (1 / 2)] (Fin 1))
     = traj (my_generalized_steps demo_rng 5 compute_alpha_spec zero_model (Fin 0) demo_image
          demo_image [[0]] [Fin (1 / 2)] (Fin 1)) \<and>
   traj (my_generalized_steps demo_rng 5 compute_alpha_spec zero_model (Fin 0) demo_image
          demo_image [[0]] [Fin (1 / 2)] (Fin 1))
     = Inr ([demo_image, demo_image], [demo_image]) \<and>
   traj (DA_generalized_steps ones_rng 0 compute_alpha_spec zero_model (Fin 0) demo_image demo_image
          [0] [Fin (1 / 2)] (Fin 1))
     = traj (DA_generalized_steps demo_rng 5 compute_alpha_spec zero_model (Fin 0) demo_image
          demo_image [0] [Fin (1 / 2)] (Fin 1)) \<and>
   traj (DA_generalized_steps demo_rng 5 compute_alpha_spec zero_model (Fin 0) demo_image
          demo_image [0] [Fin (1 / 2)] (Fin 1))
     = Inr ([demo_image, demo_image], [demo_image])"
  using reverse_sampler_deterministic [of ones_rng 0 compute_alpha_spec zero_model demo_image
      demo_image "[[0]]" "[Fin (1 / 2)]" "Fin 1" demo_rng 5 compute_alpha_spec "[0]"]
    demo_my_run [of demo_rng 5] demo_da_run [of demo_rng 5]
  by blast

section \<open>sample.py: the negative radicand in a run\<close>

lemma two_alpha_spec:
  "compute_alpha_spec demo_two_betas [0] = Inr (demo_alpha (1 / 2))"
  "compute_alpha_spec demo_two_betas [1] = Inr (demo_alpha (1 / 4))"
  "compute_alpha_spec demo_two_betas [- 1] = Inr (demo_alpha 1)"
  by (simp_all add: compute_alpha_spec_def cumprod_def fl_sub_def demo_alpha_def demo_two_betas_def)

lemma reversed_coeffs:
  "stoch_coeffs (Fin 1) (demo_alpha (1 / 2)) (demo_alpha (1 / 4)) = Inr (demo_coeff NaN, demo_coeff NaN)"
proof -
  have "c1_of (Fin 1) (Fin (1 / 2)) (Fin (1 / 4)) = NaN" "c2_of (Fin 1) (Fin (1 / 2)) (Fin (1 / 4)) = NaN"
    by (rule coeffs_reversed; simp)+
  then show ?thesis
    by (simp add: stoch_coeffs_elementwise demo_alpha_def demo_coeff_def)
qed

lemma last_coeffs:
  "stoch_coeffs (Fin 1) (demo_alpha (1 / 4)) (demo_alpha 1) = Inr (demo_alpha 0, demo_alpha 0)"
  by (simp add: stoch_coeffs_elementwise c1_of_def c2_of_def radicand_def fl_sub_def demo_alpha_def)

lemma nan_next:
  "next_state (demo_alpha (1 / 4)) demo_image (demo_coeff NaN) (fst (randn_like T g demo_image))
      (demo_coeff NaN) demo_image = Inr nan_image"
  by (simp add: next_state_def demo_image_def nan_image_def randn_like_def full_def numel_def
      tmap_def tbin_def per_sample_def expand_def bind_e_def numeral_2_eq_2 numeral_3_eq_3 upt_rec
      demo_alpha_def demo_coeff_def)

lemma nan_scale:
  "compute_adaptive_noise_scale nan_image (zero_model nan_image t) a = Fin (3 / 2)"
  by (simp add: compute_adaptive_noise_scale_def nan_image_def zero_model_def full_def numel_def
      tmap_def tensor_norm_def fl_sum_def py_min_def py_max_def numeral_2_eq_2)

lemma nan_estimate:
  "corrected_estimate (Fin 1) demo_image nan_image (zero_model nan_image t) (demo_alpha (1 / 4))
     = Inr (nan_image, nan_image)"
  unfolding corrected_estimate_def nan_scale Let_def
  by (simp add: demo_image_def nan_image_def zero_model_def full_def numel_def tmap_def tbin_def
      per_sample_def expand_def bind_e_def fl_sub_def numeral_2_eq_2 numeral_3_eq_3 demo_alpha_def)

lemma nan_next_last:
  "next_state (demo_alpha 1) nan_image (demo_alpha 0) (fst (randn_like T g demo_image))
      (demo_alpha 0) nan_image = Inr nan_image"
  by (simp add: next_state_def demo_image_def nan_image_def randn_like_def full_def numel_def
      tmap_def tbin_def per_sample_def expand_def bind_e_def numeral_2_eq_2 numeral_3_eq_3 upt_rec
      demo_alpha_def)

text \<open>
  The negative radicand in a run: on the strictly decreasing step sequence \<open>[1, 0]\<close> with two
  betas \<open>0.5\<close>, a denoiser that returns zeros and \<open>eta = 1\<close>, \<open>my_generalized_steps\<close> visits
  step 0 with next step 1, where \<open>alpha_i / alpha_j = 2\<close>: the state it appends is NaN
  everywhere, and so is everything after it. (The alphas are those of \<open>compute_alpha_spec\<close>.)
\<close>

lemma my_generalized_steps_nan_run:
  "traj (my_generalized_steps T g compute_alpha_spec zero_model (Fin 1) demo_image demo_image
          [[1, 0]] demo_two_betas (Fin 1))
     = Inr ([demo_image, nan_image, nan_image], [demo_image, nan_image])"
  by (simp add: my_generalized_steps_def my_iteration_def demo_shape item_at_def bind_e_simps
      two_alpha_spec demo_estimate reversed_coeffs nan_next nan_estimate last_coeffs nan_next_last
      case_prod_beta traj_Inr upt_2)

end
